theory Spec2Isabelle
  imports Main "HOL-Library.Word"
begin

section \<open>The host checker manager of host\_checker\_manager.go\<close>

text \<open>
  The manager elects one polling instance through a lease key in a shared key store,
  records hosts that are down as keys of the same store, builds the list of hosts to
  check, and writes one analytics record per report.

  Conventions of the embedding:
  \<^item> Go's \<open>int\<close> and \<open>int64\<close> are 64-bit words (a 64-bit platform), read with \<open>sint\<close>;
    arithmetic on them wraps.
  \<^item> A \<open>time.Time\<close> is the instant in nanoseconds relative to the epoch, an unbounded
    integer: \<open>Time.Add\<close> is exact for every clock reading of the years in which a
    64-bit nanosecond count is defined, the only ones a duration can reach from now.
  \<^item> A \<open>float64\<close> is carried as its 64 bits; nothing here computes with one.
  \<^item> A nil pointer is \<open>None\<close>; dereferencing it is the outcome \<open>Inl NilDereference\<close>.
  \<^item> Log lines, spawned goroutines and calls to collaborators are returned as a list of
    effects in program order.
  \<^item> Functions of the standard library and of other packages (\<open>url.Parse\<close>,
    \<open>base64.StdEncoding.DecodeString\<close>, \<open>msgpack.Marshal\<close>, the clock and the
    calendar) are parameters of the functions that call them.
\<close>

subsection \<open>Data\<close>

type_synonym go_int = "64 word"
type_synonym int64 = "64 word"
type_synonym float64 = "64 word"
type_synonym Time = int
type_synonym Duration = int64

datatype panic = NilDereference

datatype level = Debug | Info | Warning | Error

text \<open>An error value of another package, by its message.\<close>

datatype go_error = KeyError | LibError string

text \<open>\<open>tykcommon.HostCheckObject\<close>: one configured uptime test.\<close>

record HostCheckObject =
  CheckURL :: string
  Method :: string
  Headers :: "string \<rightharpoonup> string"
  Body :: string

text \<open>\<open>HostData\<close>, as the literal in \<open>PrepareTrackingHost\<close> fills it.\<close>

record HostData =
  CheckURL :: string
  ID :: string
  MetaData :: "string \<rightharpoonup> string"
  Method :: string
  Headers :: "string \<rightharpoonup> string"
  Body :: string

text \<open>\<open>HostHealthReport\<close> embeds \<open>HostData\<close> and adds the outcome of one check.\<close>

record HostHealthReport = HostData +
  ResponseCode :: go_int
  Latency :: float64
  IsTCPError :: bool

record UptimeReportData =
  URL :: string
  RequestTime :: int64
  ResponseCode :: go_int
  TCPError :: bool
  ServerError :: bool
  Day :: int
  Month :: int
  Year :: int
  Hour :: int
  TimeStamp :: Time
  ExpireAt :: Time
  APIID :: string
  OrgID :: string

text \<open>
  The fields of \<open>APISpec\<close> that this file reads: \<open>APIID\<close>, \<open>OrgID\<close>,
  \<open>UptimeTests.CheckList\<close> and \<open>UptimeTests.Config.ExpireUptimeAnalyticsAfter\<close>.
\<close>

record APISpec =
  APIID :: string
  OrgID :: string
  UptimeTests_CheckList :: "HostCheckObject list"
  UptimeTests_Config_ExpireUptimeAnalyticsAfter :: int64

text \<open>
  The fields of the global \<open>config\<close> that this file reads:
  \<open>config.UptimeTests.Config.EnableUptimeAnalytics\<close>, \<open>.CheckerPoolSize\<close>,
  \<open>.FailureTriggerSampleSize\<close>, \<open>.TimeWait\<close> and \<open>config.AnalyticsConfig.PurgeDelay\<close>.
\<close>

record Config =
  EnableUptimeAnalytics :: bool
  CheckerPoolSize :: go_int
  FailureTriggerSampleSize :: go_int
  TimeWait :: go_int
  PurgeDelay :: go_int

datatype TykEvent = EVENT_HOSTDOWN | EVENT_HOSTUP

record EVENT_HostStatusMeta =
  Message :: string
  HostInfo :: HostHealthReport

datatype effect =
    Log level "string list"
  | Go_FireEvent APISpec TykEvent EVENT_HostStatusMeta
  | PurgeCache
  | Sleep Duration

subsection \<open>The key store\<close>

text \<open>
  Modelled from the spec: \<open>RedisClusterStorageManager\<close> is declared outside this file.
  The spec gives its interface as \<open>Get(key) -> value | NotFound\<close>,
  \<open>Set(key, value, ttlSeconds)\<close>, \<open>Delete(key)\<close> and
  \<open>AppendToCollection(name, bytes)\<close>. A key holds its value and the TTL it was set
  with; a collection holds its members in the order they were appended.
\<close>

record RedisClusterStorageManager =
  keys :: "string \<rightharpoonup> (string \<times> int64)"
  sets :: "string \<Rightarrow> string list"

definition GetKey :: "RedisClusterStorageManager \<Rightarrow> string \<Rightarrow> go_error + string" where
  "GetKey r keyName = (case keys r keyName of None \<Rightarrow> Inl KeyError | Some (v, ttl) \<Rightarrow> Inr v)"

definition SetKey :: "RedisClusterStorageManager \<Rightarrow> string \<Rightarrow> string \<Rightarrow> int64 \<Rightarrow> RedisClusterStorageManager" where
  "SetKey r keyName v timeout = r\<lparr>keys := (keys r)(keyName \<mapsto> (v, timeout))\<rparr>"

definition DeleteKey :: "RedisClusterStorageManager \<Rightarrow> string \<Rightarrow> RedisClusterStorageManager" where
  "DeleteKey r keyName = r\<lparr>keys := (keys r)(keyName := None)\<rparr>"

definition AppendToSet :: "RedisClusterStorageManager \<Rightarrow> string \<Rightarrow> string \<Rightarrow> RedisClusterStorageManager" where
  "AppendToSet r keyName v = r\<lparr>sets := (sets r)(keyName := sets r keyName @ [v])\<rparr>"

subsection \<open>The manager\<close>

text \<open>
  Modelled from the spec: \<open>HostUptimeChecker\<close> is declared outside this file. Of the
  prober the spec says that \<open>ResetHostSet(newHosts)\<close> hands it the new host set; the
  model keeps the set it was handed last.
\<close>

record HostUptimeChecker =
  HostList :: "string \<rightharpoonup> HostData"

definition ResetList :: "HostUptimeChecker \<Rightarrow> (string \<rightharpoonup> HostData) \<Rightarrow> HostUptimeChecker" where
  "ResetList h hostList = h\<lparr>HostList := hostList\<rparr>"

text \<open>
  The interface \<open>Purger\<close> is declared outside this file. Its one method used here,
  \<open>PurgeCache\<close>, is the effect of that name; a purger has no state of its own here.
\<close>

datatype Purger = APurger

text \<open>
  \<open>store\<close> and \<open>checker\<close> are pointers, \<open>Clean\<close> is an interface value: \<open>None\<close> is nil.
  The field \<open>store\<close> holds the key space that the pointer leads to. The field \<open>Id\<close> is
  written \<open>Id'\<close>.
\<close>

record HostCheckerManager =
  Id' :: string
  store :: "RedisClusterStorageManager option"
  checker :: "HostUptimeChecker option"
  stopLoop :: bool
  pollerStarted :: bool
  unhealthyHostList :: "string \<rightharpoonup> bool"
  currentHostList :: "string \<rightharpoonup> HostData"
  Clean :: "Purger option"

definition UnHealthyHostMetaDataTargetKey :: string where
  "UnHealthyHostMetaDataTargetKey = ''target_url''"

definition UnHealthyHostMetaDataAPIKey :: string where
  "UnHealthyHostMetaDataAPIKey = ''api_id''"

definition UnHealthyHostMetaDataHostKey :: string where
  "UnHealthyHostMetaDataHostKey = ''host_name''"

definition PollerCacheKey :: string where
  "PollerCacheKey = ''PollerActiveInstanceID''"

definition PoolerHostSentinelKeyPrefix :: string where
  "PoolerHostSentinelKeyPrefix = ''PollerCheckerInstance:''"

definition UptimeAnalytics_KEYNAME :: string where
  "UptimeAnalytics_KEYNAME = ''tyk-uptime-analytics''"

subsection \<open>Leader election: AmIPolling\<close>

definition AmIPolling :: "HostCheckerManager \<Rightarrow> bool \<times> HostCheckerManager \<times> effect list" where
  "AmIPolling hc =
     (case store hc of
        None \<Rightarrow>
          (False, hc,
           [Log Error [''[HOST CHECK MANAGER] No storage instance set for uptime tests! Disabling poller...'']])
      | Some s \<Rightarrow>
          (case GetKey s PollerCacheKey of
             Inl err \<Rightarrow>
               (True, hc\<lparr>store := Some (SetKey s PollerCacheKey (Id' hc) 15)\<rparr>,
                [Log Debug [''[HOST CHECK MANAGER] No Primary instance found, assuming control'']])
           | Inr ActiveInstance \<Rightarrow>
               (if ActiveInstance = Id' hc
                then (True, hc\<lparr>store := Some (SetKey s PollerCacheKey (Id' hc) 15)\<rparr>,
                      [Log Debug [''[HOST CHECK MANAGER] Primary instance set, I am master'']])
                else (False, hc,
                      [Log Debug [''Active Instance is: '', ActiveInstance],
                       Log Debug [''--- I am: '', Id' hc]]))))"

subsection \<open>Expiry of an analytics record: SetExpiry\<close>

definition time_Second :: Duration where
  "time_Second = 1000000000"

definition time_Hour :: Duration where
  "time_Hour = 60 * (60 * time_Second)"

text \<open>\<open>t.Add(d)\<close>: the duration is a signed count of nanoseconds.\<close>

definition Add :: "Time \<Rightarrow> Duration \<Rightarrow> Time" where
  "Add t d = t + sint d"

text \<open>\<open>now\<close> is what \<open>time.Now()\<close> returns inside \<open>SetExpiry\<close>.\<close>

definition SetExpiry :: "Time \<Rightarrow> UptimeReportData \<Rightarrow> int64 \<Rightarrow> UptimeReportData" where
  "SetExpiry now u expiresInSeconds =
     (let expiry = expiresInSeconds * time_Second;
          expiry = (if expiresInSeconds = 0 then (24 * time_Hour) * (365 * 100) else expiry);
          t = now;
          t2 = Add t expiry
      in u\<lparr>ExpireAt := t2\<rparr>)"

subsection \<open>The purge loop: UptimePurgeLoop\<close>

text \<open>
  One pass through the body of the \<open>for\<close> loop. The loop reads \<open>hc.pollerStarted\<close> and
  \<open>hc.Clean\<close> afresh in every pass, and the election loop writes the flag in between,
  so the pass takes the manager as it is at that moment.
\<close>

definition UptimePurgeLoop_body :: "Config \<Rightarrow> HostCheckerManager \<Rightarrow> effect list" where
  "UptimePurgeLoop_body config hc =
     (if pollerStarted hc
      then (case Clean hc of
              None \<Rightarrow> []
            | Some purger \<Rightarrow> [Log Debug [''[HOST CHECK MANAGER] Purging uptime analytics''], PurgeCache])
      else [])
     @ [Sleep (PurgeDelay config * time_Second)]"

text \<open>
  The loop has no exit. It is run on the list of the manager's successive states, one
  per pass; when the list is used up the loop is still running.
\<close>

fun UptimePurgeLoop_for :: "Config \<Rightarrow> HostCheckerManager list \<Rightarrow> effect list" where
  "UptimePurgeLoop_for config [] = []"
| "UptimePurgeLoop_for config (hc # hcs) =
     UptimePurgeLoop_body config hc @ UptimePurgeLoop_for config hcs"

datatype running = Returned | StillRunning

definition UptimePurgeLoop :: "Config \<Rightarrow> HostCheckerManager list \<Rightarrow> running \<times> effect list" where
  "UptimePurgeLoop config hcs =
     (if PurgeDelay config = - 1
      then (Returned,
            [Log Warning [''Analytics purge turned off, you are responsible for Redis storage maintenance.'']])
      else (StillRunning,
            Log Debug [''[HOST CHECK MANAGER] Started analytics purge loop'']
              # UptimePurgeLoop_for config hcs))"

subsection \<open>Host state: OnHostDown, OnHostBackUp, IsHostDown\<close>

text \<open>Reading a \<open>map[string]string\<close>: a missing key gives the empty string.\<close>

definition map_index :: "(string \<rightharpoonup> string) \<Rightarrow> string \<Rightarrow> string" where
  "map_index m k = (case m k of None \<Rightarrow> [] | Some v \<Rightarrow> v)"

definition getHostKey :: "HostHealthReport \<Rightarrow> string" where
  "getHostKey report =
     PoolerHostSentinelKeyPrefix @ map_index (MetaData report) UnHealthyHostMetaDataHostKey"

text \<open>
  Modelled from the spec: the global \<open>ApiSpecRegister\<close> is declared outside this file.
  The spec gives the registry as \<open>Lookup(tenantId) -> (orgId, config) | NotFound\<close>: the
  register maps an identifier to a pointer to its \<open>APISpec\<close>, and after a lookup
  \<open>thisSpec, found := ApiSpecRegister[id]\<close> that misses, \<open>thisSpec\<close> is nil. The register
  is a parameter of every function that reads it.

  A method called through the nil \<open>store\<close> pointer dereferences it.
\<close>

definition OnHostDown ::
  "Config \<Rightarrow> (string \<rightharpoonup> APISpec) \<Rightarrow> HostCheckerManager \<Rightarrow> HostHealthReport
     \<Rightarrow> panic + (HostCheckerManager \<times> effect list)" where
  "OnHostDown config ApiSpecRegister hc report =
     (case store hc of
        None \<Rightarrow> Inl NilDereference
      | Some s \<Rightarrow>
          (let log1 = Log Debug [''Update key: '', getHostKey report];
               hc1 = hc\<lparr>store := Some (SetKey s (getHostKey report) ''1'' (TimeWait config))\<rparr>
           in case ApiSpecRegister (map_index (MetaData report) UnHealthyHostMetaDataAPIKey) of
                None \<Rightarrow>
                  Inr (hc1,
                       [log1,
                        Log Warning [''[HOST CHECKER MANAGER] Event can't fire for API that doesn't exist'']])
              | Some thisSpec \<Rightarrow>
                  Inr (hc1,
                       [log1,
                        Go_FireEvent thisSpec EVENT_HOSTDOWN
                          \<lparr>Message = ''Uptime test failed'', HostInfo = report\<rparr>,
                        Log Warning [''[HOST CHECKER MANAGER] Host is DOWN: '', HostData.CheckURL report]])))"

definition OnHostBackUp ::
  "(string \<rightharpoonup> APISpec) \<Rightarrow> HostCheckerManager \<Rightarrow> HostHealthReport
     \<Rightarrow> panic + (HostCheckerManager \<times> effect list)" where
  "OnHostBackUp ApiSpecRegister hc report =
     (case store hc of
        None \<Rightarrow> Inl NilDereference
      | Some s \<Rightarrow>
          (let log1 = Log Debug [''Delete key: '', getHostKey report];
               hc1 = hc\<lparr>store := Some (DeleteKey s (getHostKey report))\<rparr>
           in case ApiSpecRegister (map_index (MetaData report) UnHealthyHostMetaDataAPIKey) of
                None \<Rightarrow>
                  Inr (hc1,
                       [log1,
                        Log Warning [''[HOST CHECKER MANAGER] Event can't fire for API that doesn't exist'']])
              | Some thisSpec \<Rightarrow>
                  Inr (hc1,
                       [log1,
                        Go_FireEvent thisSpec EVENT_HOSTUP
                          \<lparr>Message = ''Uptime test suceeded'', HostInfo = report\<rparr>,
                        Log Warning [''[HOST CHECKER MANAGER] Host is UP:   '', HostData.CheckURL report]])))"

text \<open>
  The one field of \<open>url.URL\<close> that is read. \<open>url.Parse\<close> returns either an error and a
  nil \<open>*URL\<close>, or a URL and no error.
\<close>

record URL =
  Host :: string

definition error_string :: "go_error \<Rightarrow> string" where
  "error_string e = (case e of KeyError \<Rightarrow> ''key not found'' | LibError msg \<Rightarrow> msg)"

text \<open>
  After a parse error the function logs it and goes on to read \<open>u.Host\<close> through the
  nil \<open>u\<close>.
\<close>

definition IsHostDown ::
  "(string \<Rightarrow> go_error + URL) \<Rightarrow> HostCheckerManager \<Rightarrow> string \<Rightarrow> panic + (bool \<times> effect list)" where
  "IsHostDown url_Parse hc thisUrl =
     (case url_Parse thisUrl of
        Inl err \<Rightarrow> Inl NilDereference
      | Inr u \<Rightarrow>
          (case store hc of
             None \<Rightarrow> Inl NilDereference
           | Some s \<Rightarrow>
               (case GetKey s (PoolerHostSentinelKeyPrefix @ Host u) of
                  Inl fErr \<Rightarrow> Inr (True, [Log Debug [''Key is: '', PoolerHostSentinelKeyPrefix @ Host u]])
                | Inr v \<Rightarrow> Inr (False, [Log Debug [''Key is: '', PoolerHostSentinelKeyPrefix @ Host u]]))))"

subsection \<open>The tracking list: PrepareTrackingHost, UpdateTrackingList, SetCheckerHostList\<close>

text \<open>
  The result is the error, or the host data when the error is nil; the zero
  \<open>HostData\<close> that Go returns beside an error is not kept. \<open>url_Parse\<close> and
  \<open>DecodeString\<close> are \<open>url.Parse\<close> and \<open>b64.StdEncoding.DecodeString\<close>.
\<close>

definition PrepareTrackingHost ::
  "(string \<Rightarrow> go_error + URL) \<Rightarrow> (string \<Rightarrow> go_error + string) \<Rightarrow> HostCheckObject \<Rightarrow> string
     \<Rightarrow> (go_error + HostData) \<times> effect list" where
  "PrepareTrackingHost url_Parse DecodeString checkObject APIID' =
     (case url_Parse (HostCheckObject.CheckURL checkObject) of
        Inl err \<Rightarrow> (Inl err, [Log Error [error_string err]])
      | Inr u \<Rightarrow>
          (case (if length (HostCheckObject.Body checkObject) > 0
                 then DecodeString (HostCheckObject.Body checkObject)
                 else Inr []) of
             Inl loadErr \<Rightarrow>
               (Inl loadErr, [Log Error [''Failed to load blob data: '', error_string loadErr]])
           | Inr bodyData \<Rightarrow>
               (let thisHostData =
                      \<lparr>CheckURL = HostCheckObject.CheckURL checkObject,
                       ID = HostCheckObject.CheckURL checkObject,
                       MetaData = Map.empty,
                       Method = HostCheckObject.Method checkObject,
                       Headers = HostCheckObject.Headers checkObject,
                       Body = bodyData\<rparr>;
                    thisHostData = thisHostData
                      \<lparr>MetaData := (MetaData thisHostData)
                         (UnHealthyHostMetaDataTargetKey \<mapsto> HostCheckObject.CheckURL checkObject)\<rparr>;
                    thisHostData = thisHostData
                      \<lparr>MetaData := (MetaData thisHostData)(UnHealthyHostMetaDataAPIKey \<mapsto> APIID')\<rparr>;
                    thisHostData = thisHostData
                      \<lparr>MetaData := (MetaData thisHostData)(UnHealthyHostMetaDataHostKey \<mapsto> Host u)\<rparr>
                in (Inr thisHostData, []))))"

text \<open>
  The loop that fills \<open>newHostList\<close>, from the empty map. The parameter \<open>hd\<close> is
  written \<open>hd'\<close>.
\<close>

fun UpdateTrackingList_for :: "(string \<rightharpoonup> HostData) \<Rightarrow> HostData list \<Rightarrow> (string \<rightharpoonup> HostData)" where
  "UpdateTrackingList_for newHostList [] = newHostList"
| "UpdateTrackingList_for newHostList (host # hd') =
     UpdateTrackingList_for (newHostList(HostData.CheckURL host \<mapsto> host)) hd'"

definition UpdateTrackingList :: "HostCheckerManager \<Rightarrow> HostData list \<Rightarrow> HostCheckerManager \<times> effect list" where
  "UpdateTrackingList hc hd' =
     (let newHostList = UpdateTrackingList_for Map.empty hd';
          hc1 = hc\<lparr>currentHostList := newHostList\<rparr>
      in case checker hc1 of
           None \<Rightarrow> (hc1, [Log Debug [''--- Setting tracking list up'']])
         | Some c \<Rightarrow>
             (hc1\<lparr>checker := Some (ResetList c newHostList)\<rparr>,
              [Log Debug [''--- Setting tracking list up''], Log Debug [''Reset initiated'']]))"

text \<open>
  The inner loop of \<open>SetCheckerHostList\<close> over the check list of one API, and the outer
  loop over the register. Both carry \<open>hostList\<close> and the effects so far. Go ranges over
  the register in an order of its choosing: \<open>specs\<close> are its values in that order.
\<close>

fun SetCheckerHostList_checks ::
  "(string \<Rightarrow> go_error + URL) \<Rightarrow> (string \<Rightarrow> go_error + string) \<Rightarrow> string \<Rightarrow> HostCheckObject list
     \<Rightarrow> HostData list \<times> effect list \<Rightarrow> HostData list \<times> effect list" where
  "SetCheckerHostList_checks url_Parse DecodeString APIID' [] acc = acc"
| "SetCheckerHostList_checks url_Parse DecodeString APIID' (checkItem # rest) (hostList, es) =
     (case PrepareTrackingHost url_Parse DecodeString checkItem APIID' of
        (Inr newHostDoc, es1) \<Rightarrow>
          SetCheckerHostList_checks url_Parse DecodeString APIID' rest
            (hostList @ [newHostDoc],
             es @ es1 @ [Log Info [''---> Adding uptime test: '', HostCheckObject.CheckURL checkItem]])
      | (Inl hdGenErr, es1) \<Rightarrow>
          SetCheckerHostList_checks url_Parse DecodeString APIID' rest
            (hostList,
             es @ es1 @
               [Log Warning [''---> Adding uptime test failed: '', HostCheckObject.CheckURL checkItem],
                Log Warning [''--------> Error was: '', error_string hdGenErr]]))"

fun SetCheckerHostList_specs ::
  "(string \<Rightarrow> go_error + URL) \<Rightarrow> (string \<Rightarrow> go_error + string) \<Rightarrow> APISpec list
     \<Rightarrow> HostData list \<times> effect list \<Rightarrow> HostData list \<times> effect list" where
  "SetCheckerHostList_specs url_Parse DecodeString [] acc = acc"
| "SetCheckerHostList_specs url_Parse DecodeString (spec # specs) acc =
     SetCheckerHostList_specs url_Parse DecodeString specs
       (SetCheckerHostList_checks url_Parse DecodeString (APISpec.APIID spec)
          (UptimeTests_CheckList spec) acc)"

text \<open>\<open>GlobalHostChecker\<close> is the manager \<open>hc\<close>.\<close>

definition SetCheckerHostList ::
  "(string \<Rightarrow> go_error + URL) \<Rightarrow> (string \<Rightarrow> go_error + string) \<Rightarrow> APISpec list \<Rightarrow> HostCheckerManager
     \<Rightarrow> HostCheckerManager \<times> effect list" where
  "SetCheckerHostList url_Parse DecodeString specs hc =
     (case SetCheckerHostList_specs url_Parse DecodeString specs
             ([], [Log Info [''Loading uptime tests:'']]) of
        (hostList, es) \<Rightarrow>
          (case UpdateTrackingList hc hostList of (hc1, es1) \<Rightarrow> (hc1, es @ es1)))"

subsection \<open>Analytics: RecordUptimeAnalytics\<close>

text \<open>
  What the runtime and the libraries answer during one call: the two readings of
  \<open>time.Now()\<close> (in \<open>RecordUptimeAnalytics\<close> and, later, in \<open>SetExpiry\<close>), the calendar
  methods of \<open>time.Time\<close>, the conversion \<open>int64(float64)\<close> and \<open>msgpack.Marshal\<close>.
\<close>

record RecordEnv =
  time_Now :: Time
  time_Now_SetExpiry :: Time
  Time_Day :: "Time \<Rightarrow> int"
  Time_Month :: "Time \<Rightarrow> int"
  Time_Year :: "Time \<Rightarrow> int"
  Time_Hour :: "Time \<Rightarrow> int"
  int64_of_float64 :: "float64 \<Rightarrow> int64"
  msgpack_Marshal :: "UptimeReportData \<Rightarrow> go_error + string"

text \<open>The zero \<open>time.Time\<close>, January 1 of year 1, in nanoseconds relative to the epoch.\<close>

definition zero_Time :: Time where
  "zero_Time = - 62135596800000000000"

text \<open>
  The record that the struct literal builds, with \<open>thisOrg\<close> and \<open>serverError\<close> as the
  lines before it compute them. \<open>ExpireAt\<close> is not in the literal and starts as the
  zero time.
\<close>

definition newAnalyticsRecord :: "RecordEnv \<Rightarrow> (string \<rightharpoonup> APISpec) \<Rightarrow> HostHealthReport \<Rightarrow> UptimeReportData" where
  "newAnalyticsRecord env ApiSpecRegister thisReport =
     (let thisSpec = ApiSpecRegister (map_index (MetaData thisReport) UnHealthyHostMetaDataAPIKey);
          thisOrg = (case thisSpec of None \<Rightarrow> [] | Some sp \<Rightarrow> APISpec.OrgID sp);
          t = time_Now env;
          serverError = (if 200 < sint (HostHealthReport.ResponseCode thisReport) then True else False)
      in \<lparr>URL = HostData.CheckURL thisReport,
          RequestTime = int64_of_float64 env (Latency thisReport),
          ResponseCode = HostHealthReport.ResponseCode thisReport,
          TCPError = IsTCPError thisReport,
          ServerError = serverError,
          Day = Time_Day env t,
          Month = Time_Month env t,
          Year = Time_Year env t,
          Hour = Time_Hour env t,
          TimeStamp = t,
          ExpireAt = zero_Time,
          APIID = map_index (MetaData thisReport) UnHealthyHostMetaDataAPIKey,
          OrgID = thisOrg\<rparr>)"

text \<open>
  The record after \<open>SetExpiry\<close>, the one that is handed to \<open>msgpack.Marshal\<close>. After a
  lookup that missed, \<open>thisSpec\<close> is nil when
  \<open>thisSpec.UptimeTests.Config.ExpireUptimeAnalyticsAfter\<close> is read.
\<close>

definition RecordUptimeAnalytics_record ::
  "RecordEnv \<Rightarrow> (string \<rightharpoonup> APISpec) \<Rightarrow> HostHealthReport \<Rightarrow> panic + UptimeReportData" where
  "RecordUptimeAnalytics_record env ApiSpecRegister thisReport =
     (let newRecord = newAnalyticsRecord env ApiSpecRegister thisReport
      in case ApiSpecRegister (map_index (MetaData thisReport) UnHealthyHostMetaDataAPIKey) of
           None \<Rightarrow> Inl NilDereference
         | Some thisSpec \<Rightarrow>
             Inr (SetExpiry (time_Now_SetExpiry env) newRecord
                    (UptimeTests_Config_ExpireUptimeAnalyticsAfter thisSpec)))"

text \<open>
  The receiver is a copy of the manager, but \<open>store\<close> is a pointer: the append is seen
  through every copy, so the manager is returned with the new key space.
\<close>

definition RecordUptimeAnalytics ::
  "RecordEnv \<Rightarrow> (string \<rightharpoonup> APISpec) \<Rightarrow> HostCheckerManager \<Rightarrow> HostHealthReport
     \<Rightarrow> panic + (go_error option \<times> HostCheckerManager \<times> effect list)" where
  "RecordUptimeAnalytics env ApiSpecRegister hc thisReport =
     (case RecordUptimeAnalytics_record env ApiSpecRegister thisReport of
        Inl p \<Rightarrow> Inl p
      | Inr newRecord \<Rightarrow>
          (case msgpack_Marshal env newRecord of
             Inl err \<Rightarrow>
               Inr (Some err, hc, [Log Error [''Error encoding uptime data:'', error_string err]])
           | Inr encoded \<Rightarrow>
               (case store hc of
                  None \<Rightarrow> Inl NilDereference
                | Some s \<Rightarrow>
                    Inr (None,
                         hc\<lparr>store := Some (AppendToSet s UptimeAnalytics_KEYNAME encoded)\<rparr>,
                         []))))"

subsection \<open>Construction: Init\<close>

text \<open>
  \<open>HostCheckerManager{}\<close>, and \<open>Init\<close> with the identifier that
  \<open>uuid.NewUUID().String()\<close> returns in \<open>GenerateCheckerId\<close>.
\<close>

definition zero_HostCheckerManager :: HostCheckerManager where
  "zero_HostCheckerManager =
     \<lparr>Id' = [], store = None, checker = None, stopLoop = False, pollerStarted = False,
      unhealthyHostList = Map.empty, currentHostList = Map.empty, Clean = None\<rparr>"

definition GenerateCheckerId :: "string \<Rightarrow> HostCheckerManager \<Rightarrow> HostCheckerManager" where
  "GenerateCheckerId uuid hc = hc\<lparr>Id' := uuid\<rparr>"

definition Init :: "string \<Rightarrow> HostCheckerManager \<Rightarrow> RedisClusterStorageManager option \<Rightarrow> HostCheckerManager" where
  "Init uuid hc store' =
     GenerateCheckerId uuid (hc\<lparr>store := store', unhealthyHostList := Map.empty\<rparr>)"

subsection \<open>Notions used in the statements\<close>

definition is_FireEvent :: "effect \<Rightarrow> bool" where
  "is_FireEvent e = (case e of Go_FireEvent sp ev meta \<Rightarrow> True | _ \<Rightarrow> False)"

definition is_Log :: "level \<Rightarrow> effect \<Rightarrow> bool" where
  "is_Log l e = (case e of Log l' args \<Rightarrow> l' = l | _ \<Rightarrow> False)"

text \<open>
  The check configurations that \<open>SetCheckerHostList\<close> visits, each with the API
  identifier it is prepared with, in the order of the visit.
\<close>

definition all_checks :: "APISpec list \<Rightarrow> (HostCheckObject \<times> string) list" where
  "all_checks specs =
     concat (map (\<lambda>spec. map (\<lambda>checkItem. (checkItem, APISpec.APIID spec)) (UptimeTests_CheckList spec)) specs)"

text \<open>The host data of a configuration that \<open>PrepareTrackingHost\<close> accepts.\<close>

definition prepared ::
  "(string \<Rightarrow> go_error + URL) \<Rightarrow> (string \<Rightarrow> go_error + string) \<Rightarrow> HostCheckObject \<times> string
     \<Rightarrow> HostData option" where
  "prepared url_Parse DecodeString ca =
     (case fst (PrepareTrackingHost url_Parse DecodeString (fst ca) (snd ca)) of
        Inl err \<Rightarrow> None
      | Inr h \<Rightarrow> Some h)"

subsection \<open>Values for the examples\<close>

text \<open>
  Stand-ins for \<open>url.Parse\<close> and \<open>b64.StdEncoding.DecodeString\<close>, for the examples
  only: they give what the library gives on the strings listed, and an error on every
  other string. The theorems hold for whatever the two functions are.
\<close>

definition example_url_Parse :: "string \<Rightarrow> go_error + URL" where
  "example_url_Parse rawurl =
     (if rawurl = ''http://api.example.com/path'' then Inr \<lparr>Host = ''api.example.com''\<rparr>
      else if rawurl = ''http://api.example.com/health'' then Inr \<lparr>Host = ''api.example.com''\<rparr>
      else if rawurl = ''http://google.com:3000/'' then Inr \<lparr>Host = ''google.com:3000''\<rparr>
      else if rawurl = ''http://a.example.com/'' then Inr \<lparr>Host = ''a.example.com''\<rparr>
      else if rawurl = ''http://b.example.com/'' then Inr \<lparr>Host = ''b.example.com''\<rparr>
      else Inl (LibError ''parse: not one of the example URLs''))"

definition example_DecodeString :: "string \<Rightarrow> go_error + string" where
  "example_DecodeString s =
     (if s = ''VEhJUw=='' then Inr ''THIS''
      else Inl (LibError ''illegal base64 data at input byte 0''))"

definition empty_store :: RedisClusterStorageManager where
  "empty_store = \<lparr>keys = Map.empty, sets = (\<lambda>name. [])\<rparr>"

definition example_config :: Config where
  "example_config =
     \<lparr>EnableUptimeAnalytics = True, CheckerPoolSize = 50, FailureTriggerSampleSize = 3,
      TimeWait = 10, PurgeDelay = 10\<rparr>"

definition example_check :: "string \<Rightarrow> string \<Rightarrow> HostCheckObject" where
  "example_check url body =
     \<lparr>HostCheckObject.CheckURL = url, Method = ''GET'', Headers = Map.empty, Body = body\<rparr>"

definition example_spec :: "string \<Rightarrow> string \<Rightarrow> HostCheckObject list \<Rightarrow> APISpec" where
  "example_spec apiid org checks =
     \<lparr>APIID = apiid, OrgID = org, UptimeTests_CheckList = checks,
      UptimeTests_Config_ExpireUptimeAnalyticsAfter = 0\<rparr>"

definition example_host :: "string \<Rightarrow> string \<Rightarrow> HostData" where
  "example_host url body =
     \<lparr>CheckURL = url, ID = url, MetaData = Map.empty, Method = ''GET'', Headers = Map.empty,
      Body = body\<rparr>"

text \<open>A report about \<open>api.example.com\<close> for the API \<open>t1\<close>, with a response code.\<close>

definition example_report :: "go_int \<Rightarrow> HostHealthReport" where
  "example_report code =
     \<lparr>CheckURL = ''http://api.example.com/health'', ID = ''http://api.example.com/health'',
      MetaData = [''target_url'' \<mapsto> ''http://api.example.com/health'', ''api_id'' \<mapsto> ''t1'',
                  ''host_name'' \<mapsto> ''api.example.com''],
      Method = ''GET'', Headers = Map.empty, Body = [],
      HostHealthReport.ResponseCode = code, Latency = 0, IsTCPError = False\<rparr>"

definition example_env :: RecordEnv where
  "example_env =
     \<lparr>time_Now = 1000, time_Now_SetExpiry = 2000,
      Time_Day = (\<lambda>t. 1), Time_Month = (\<lambda>t. 1), Time_Year = (\<lambda>t. 1970), Time_Hour = (\<lambda>t. 0),
      int64_of_float64 = (\<lambda>f. 0),
      msgpack_Marshal = (\<lambda>r. Inr (URL r))\<rparr>"

section \<open>Theorems\<close>

text \<open>
  C10. On a manager whose store is nil, \<open>AmIPolling\<close> returns false, leaves the manager
  as it was, and does nothing but log one error line: there is no key space to read
  or to write, and none is created.
\<close>

theorem AmIPolling_nil_store:
  "AmIPolling (hc\<lparr>store := None\<rparr>) =
     (False, hc\<lparr>store := None\<rparr>,
      [Log Error [''[HOST CHECK MANAGER] No storage instance set for uptime tests! Disabling poller...'']])"
  by (simp add: AmIPolling_def)

text \<open>
  C2. On a manager with a store: when the read of the lease key fails, \<open>AmIPolling\<close>
  returns true and the store is the old one with the manager's identifier written
  under the lease key with TTL 15; when the read returns the manager's own
  identifier, the same; when it returns another value, \<open>AmIPolling\<close> returns false and
  the manager, its store included, is unchanged.
\<close>

theorem AmIPolling_configured:
  assumes "store hc = Some s"
  shows "((\<exists>err. GetKey s PollerCacheKey = Inl err) \<longrightarrow>
            fst (AmIPolling hc) = True
            \<and> store (fst (snd (AmIPolling hc))) = Some (SetKey s PollerCacheKey (Id' hc) 15)
            \<and> keys (SetKey s PollerCacheKey (Id' hc) 15) PollerCacheKey = Some (Id' hc, 15))
       \<and> (GetKey s PollerCacheKey = Inr (Id' hc) \<longrightarrow>
            fst (AmIPolling hc) = True
            \<and> store (fst (snd (AmIPolling hc))) = Some (SetKey s PollerCacheKey (Id' hc) 15)
            \<and> keys (SetKey s PollerCacheKey (Id' hc) 15) PollerCacheKey = Some (Id' hc, 15))
       \<and> (\<forall>v. GetKey s PollerCacheKey = Inr v \<and> v \<noteq> Id' hc \<longrightarrow>
            fst (AmIPolling hc) = False \<and> fst (snd (AmIPolling hc)) = hc)"
  using assms by (auto simp: AmIPolling_def SetKey_def)

theorem AmIPolling_configured_witness:
  "fst (AmIPolling (Init ''A'' zero_HostCheckerManager (Some empty_store))) = True
   \<and> store (fst (snd (AmIPolling (Init ''A'' zero_HostCheckerManager (Some empty_store)))))
       = Some (SetKey empty_store PollerCacheKey ''A'' 15)
   \<and> fst (AmIPolling (Init ''A'' zero_HostCheckerManager (Some (SetKey empty_store PollerCacheKey ''A'' 15)))) = True
   \<and> fst (AmIPolling (Init ''B'' zero_HostCheckerManager (Some (SetKey empty_store PollerCacheKey ''A'' 15)))) = False
   \<and> fst (snd (AmIPolling (Init ''B'' zero_HostCheckerManager (Some (SetKey empty_store PollerCacheKey ''A'' 15)))))
       = Init ''B'' zero_HostCheckerManager (Some (SetKey empty_store PollerCacheKey ''A'' 15))"
proof -
  let ?a = "Init ''A'' zero_HostCheckerManager (Some empty_store)"
  let ?s1 = "SetKey empty_store PollerCacheKey ''A'' 15"
  let ?a1 = "Init ''A'' zero_HostCheckerManager (Some ?s1)"
  let ?b1 = "Init ''B'' zero_HostCheckerManager (Some ?s1)"
  have sa: "store ?a = Some empty_store" and ida: "Id' ?a = ''A''"
    by (simp_all add: Init_def GenerateCheckerId_def)
  have sa1: "store ?a1 = Some ?s1" and ida1: "Id' ?a1 = ''A''"
    by (simp_all add: Init_def GenerateCheckerId_def)
  have sb1: "store ?b1 = Some ?s1" and idb1: "Id' ?b1 = ''B''"
    by (simp_all add: Init_def GenerateCheckerId_def)
  have g0: "GetKey empty_store PollerCacheKey = Inl KeyError"
    by (simp add: GetKey_def empty_store_def)
  have g1: "GetKey ?s1 PollerCacheKey = Inr ''A''"
    by (simp add: GetKey_def SetKey_def)
  from AmIPolling_configured [OF sa] g0 ida
  have A: "fst (AmIPolling ?a) = True \<and> store (fst (snd (AmIPolling ?a))) = Some ?s1"
    by simp
  from AmIPolling_configured [OF sa1] g1 ida1
  have B: "fst (AmIPolling ?a1) = True" by simp
  from AmIPolling_configured [OF sb1] g1 idb1
  have C: "fst (AmIPolling ?b1) = False \<and> fst (snd (AmIPolling ?b1)) = ?b1"
    by simp
  from A B C show ?thesis by simp
qed

subsection \<open>SetExpiry\<close>

lemma sint_mul_Second:
  assumes "- 9223372036 \<le> sint e" "sint e \<le> 9223372036"
  shows "sint ((e :: 64 word) * 1000000000) = sint e * 1000000000"
proof -
  have "sint (e * 1000000000) = signed_take_bit 63 (sint e * sint (1000000000 :: 64 word))"
    by (simp add: sint_word_ariths)
  also have "\<dots> = sint e * 1000000000"
    using assms by (simp add: signed_take_bit_int_eq_self)
  finally show ?thesis .
qed

text \<open>
  The nanosecond count of a duration is a 64-bit product. At 9223372037 seconds it wraps
  around, and the expiry lies before the clock reading instead of 9223372037 seconds
  after it.
\<close>

theorem SetExpiry_overflow_counterexample:
  "(9223372037 :: int64) \<noteq> 0
   \<and> ExpireAt (SetExpiry 0 (newAnalyticsRecord example_env Map.empty (example_report 200)) 9223372037)
       = - 9223372036709551616
   \<and> ExpireAt (SetExpiry 0 (newAnalyticsRecord example_env Map.empty (example_report 200)) 9223372037)
       \<noteq> 0 + 9223372037 * 1000000000"
  by (simp add: SetExpiry_def Add_def time_Second_def)

text \<open>
  C3 (amended). \<open>SetExpiry\<close> with 0 sets \<open>ExpireAt\<close> to the clock reading plus 100 years
  of 365 days, which is more than ten years of 366 days after the reading. With a
  nonzero number of seconds it sets \<open>ExpireAt\<close> to the reading plus the 64-bit product of
  the seconds and \<open>time.Second\<close>, read as signed nanoseconds; that is the reading plus
  so many seconds whenever the seconds lie between -9223372036 and 9223372036, the
  range in which the product fits.
\<close>

theorem SetExpiry_ExpireAt:
  "(expiresInSeconds = 0 \<longrightarrow>
      ExpireAt (SetExpiry now u expiresInSeconds) = now + 100 * 365 * 24 * 3600 * 1000000000
      \<and> now + 10 * 366 * 24 * 3600 * 1000000000 < ExpireAt (SetExpiry now u expiresInSeconds))
   \<and> (expiresInSeconds \<noteq> 0 \<longrightarrow>
      ExpireAt (SetExpiry now u expiresInSeconds) = now + sint (expiresInSeconds * 1000000000))
   \<and> (expiresInSeconds \<noteq> 0 \<and> - 9223372036 \<le> sint expiresInSeconds \<and> sint expiresInSeconds \<le> 9223372036 \<longrightarrow>
      ExpireAt (SetExpiry now u expiresInSeconds) = now + sint expiresInSeconds * 1000000000)"
proof (intro conjI impI)
  assume z: "expiresInSeconds = 0"
  then show "ExpireAt (SetExpiry now u expiresInSeconds) = now + 100 * 365 * 24 * 3600 * 1000000000"
    by (simp add: SetExpiry_def Add_def time_Hour_def time_Second_def)
  from z show "now + 10 * 366 * 24 * 3600 * 1000000000 < ExpireAt (SetExpiry now u expiresInSeconds)"
    by (simp add: SetExpiry_def Add_def time_Hour_def time_Second_def)
next
  assume "expiresInSeconds \<noteq> 0"
  then show "ExpireAt (SetExpiry now u expiresInSeconds) = now + sint (expiresInSeconds * 1000000000)"
    by (simp add: SetExpiry_def Add_def time_Second_def)
next
  assume a: "expiresInSeconds \<noteq> 0 \<and> - 9223372036 \<le> sint expiresInSeconds \<and> sint expiresInSeconds \<le> 9223372036"
  then have "sint (expiresInSeconds * 1000000000) = sint expiresInSeconds * 1000000000"
    by (simp add: sint_mul_Second)
  with a show "ExpireAt (SetExpiry now u expiresInSeconds) = now + sint expiresInSeconds * 1000000000"
    by (simp add: SetExpiry_def Add_def time_Second_def)
qed

theorem SetExpiry_ExpireAt_witness:
  "ExpireAt (SetExpiry 2000 (newAnalyticsRecord example_env Map.empty (example_report 200)) 0)
     = 3153600000000002000
   \<and> ExpireAt (SetExpiry 2000 (newAnalyticsRecord example_env Map.empty (example_report 200)) 60)
     = 60000002000
   \<and> ExpireAt (SetExpiry 2000 (newAnalyticsRecord example_env Map.empty (example_report 200)) (- 5))
     = - 4999998000"
proof -
  let ?u = "newAnalyticsRecord example_env Map.empty (example_report 200)"
  have "ExpireAt (SetExpiry 2000 ?u 0) = 3153600000000002000"
    using SetExpiry_ExpireAt [of 0 2000 ?u] by simp
  moreover have "ExpireAt (SetExpiry 2000 ?u 60) = 60000002000"
    using SetExpiry_ExpireAt [of 60 2000 ?u] by simp
  moreover have "ExpireAt (SetExpiry 2000 ?u (- 5)) = - 4999998000"
    using SetExpiry_ExpireAt [of "- 5" 2000 ?u] by simp
  ultimately show ?thesis by simp
qed

subsection \<open>UptimePurgeLoop\<close>

lemma UptimePurgeLoop_for_concat:
  "UptimePurgeLoop_for config hcs = concat (map (UptimePurgeLoop_body config) hcs)"
  by (induction hcs) simp_all

lemma PurgeCache_in_body:
  "PurgeCache \<in> set (UptimePurgeLoop_body config hc) \<longleftrightarrow> pollerStarted hc \<and> Clean hc \<noteq> None"
  by (cases "Clean hc"; cases "pollerStarted hc"; simp add: UptimePurgeLoop_body_def)

lemma count_PurgeCache_body:
  "count_list (UptimePurgeLoop_body config hc) PurgeCache
     = (if pollerStarted hc \<and> Clean hc \<noteq> None then 1 else 0)"
  by (cases "Clean hc"; cases "pollerStarted hc"; simp add: UptimePurgeLoop_body_def)

lemma count_PurgeCache_for:
  "count_list (UptimePurgeLoop_for config hcs) PurgeCache
     = length (filter (\<lambda>hc. pollerStarted hc \<and> Clean hc \<noteq> None) hcs)"
  by (induction hcs) (simp_all add: count_PurgeCache_body)

text \<open>
  C9. When the purge delay is -1, \<open>UptimePurgeLoop\<close> returns after one warning, whatever
  the manager's states are, and the purger is not called. Otherwise it does not return
  however many passes it is given; its effects are those of the passes in turn, a
  pass calls the purger only when it finds \<open>pollerStarted\<close> set, and the purger is
  called once for each pass that finds the flag set and a purger present.
\<close>

theorem UptimePurgeLoop_gated:
  "(PurgeDelay config = - 1 \<longrightarrow>
      UptimePurgeLoop config hcs =
        (Returned,
         [Log Warning [''Analytics purge turned off, you are responsible for Redis storage maintenance.'']])
      \<and> PurgeCache \<notin> set (snd (UptimePurgeLoop config hcs)))
   \<and> (PurgeDelay config \<noteq> - 1 \<longrightarrow>
      fst (UptimePurgeLoop config hcs) = StillRunning
      \<and> snd (UptimePurgeLoop config hcs) =
          Log Debug [''[HOST CHECK MANAGER] Started analytics purge loop'']
            # concat (map (UptimePurgeLoop_body config) hcs)
      \<and> (\<forall>hc \<in> set hcs. PurgeCache \<in> set (UptimePurgeLoop_body config hc) \<longrightarrow> pollerStarted hc)
      \<and> count_list (snd (UptimePurgeLoop config hcs)) PurgeCache
          = length (filter (\<lambda>hc. pollerStarted hc \<and> Clean hc \<noteq> None) hcs))"
proof (intro conjI impI)
  assume "PurgeDelay config = - 1"
  then show "UptimePurgeLoop config hcs =
        (Returned,
         [Log Warning [''Analytics purge turned off, you are responsible for Redis storage maintenance.'']])"
    and "PurgeCache \<notin> set (snd (UptimePurgeLoop config hcs))"
    by (simp_all add: UptimePurgeLoop_def)
next
  assume n: "PurgeDelay config \<noteq> - 1"
  then show "fst (UptimePurgeLoop config hcs) = StillRunning"
    by (simp add: UptimePurgeLoop_def)
  from n show "snd (UptimePurgeLoop config hcs) =
          Log Debug [''[HOST CHECK MANAGER] Started analytics purge loop'']
            # concat (map (UptimePurgeLoop_body config) hcs)"
    by (simp add: UptimePurgeLoop_def UptimePurgeLoop_for_concat)
  show "\<forall>hc \<in> set hcs. PurgeCache \<in> set (UptimePurgeLoop_body config hc) \<longrightarrow> pollerStarted hc"
    by (simp add: PurgeCache_in_body)
  from n show "count_list (snd (UptimePurgeLoop config hcs)) PurgeCache
          = length (filter (\<lambda>hc. pollerStarted hc \<and> Clean hc \<noteq> None) hcs)"
    by (simp add: UptimePurgeLoop_def count_PurgeCache_for)
qed

theorem UptimePurgeLoop_gated_witness:
  "UptimePurgeLoop (example_config\<lparr>PurgeDelay := - 1\<rparr>)
      [zero_HostCheckerManager\<lparr>pollerStarted := True, Clean := Some APurger\<rparr>]
     = (Returned,
        [Log Warning [''Analytics purge turned off, you are responsible for Redis storage maintenance.'']])
   \<and> fst (UptimePurgeLoop example_config
        [zero_HostCheckerManager\<lparr>Clean := Some APurger\<rparr>,
         zero_HostCheckerManager\<lparr>pollerStarted := True, Clean := Some APurger\<rparr>,
         zero_HostCheckerManager\<lparr>pollerStarted := True\<rparr>]) = StillRunning
   \<and> count_list (snd (UptimePurgeLoop example_config
        [zero_HostCheckerManager\<lparr>Clean := Some APurger\<rparr>,
         zero_HostCheckerManager\<lparr>pollerStarted := True, Clean := Some APurger\<rparr>,
         zero_HostCheckerManager\<lparr>pollerStarted := True\<rparr>])) PurgeCache = 1
   \<and> PurgeCache \<in> set (UptimePurgeLoop_body example_config
        (zero_HostCheckerManager\<lparr>pollerStarted := True, Clean := Some APurger\<rparr>))
   \<and> pollerStarted (zero_HostCheckerManager\<lparr>pollerStarted := True, Clean := Some APurger\<rparr>)"
proof -
  let ?off = "example_config\<lparr>PurgeDelay := - 1\<rparr>"
  let ?h0 = "zero_HostCheckerManager\<lparr>Clean := Some APurger\<rparr>"
  let ?h1 = "zero_HostCheckerManager\<lparr>pollerStarted := True, Clean := Some APurger\<rparr>"
  let ?h2 = "zero_HostCheckerManager\<lparr>pollerStarted := True\<rparr>"
  have off: "PurgeDelay ?off = - 1" by simp
  have on: "PurgeDelay example_config \<noteq> - 1" by (simp add: example_config_def)
  have A: "UptimePurgeLoop ?off [?h1] =
      (Returned,
       [Log Warning [''Analytics purge turned off, you are responsible for Redis storage maintenance.'']])"
    using UptimePurgeLoop_gated [of ?off "[?h1]"] off by simp
  note running = UptimePurgeLoop_gated [of example_config "[?h0, ?h1, ?h2]", THEN conjunct2, THEN mp, OF on]
  have B1: "fst (UptimePurgeLoop example_config [?h0, ?h1, ?h2]) = StillRunning"
    using running by blast
  have "count_list (snd (UptimePurgeLoop example_config [?h0, ?h1, ?h2])) PurgeCache
      = length (filter (\<lambda>hc. pollerStarted hc \<and> Clean hc \<noteq> None) [?h0, ?h1, ?h2])"
    using running by blast
  also have "\<dots> = 1"
    by (simp add: zero_HostCheckerManager_def)
  finally have B2: "count_list (snd (UptimePurgeLoop example_config [?h0, ?h1, ?h2])) PurgeCache = 1" .
  have C: "PurgeCache \<in> set (UptimePurgeLoop_body example_config ?h1)"
    by (simp add: UptimePurgeLoop_body_def zero_HostCheckerManager_def)
  have D: "pollerStarted ?h1"
    using running C by simp
  from A B1 B2 C D show ?thesis by simp
qed

subsection \<open>UpdateTrackingList\<close>

lemma find_app:
  "List.find P (xs @ ys) = (case List.find P xs of None \<Rightarrow> List.find P ys | Some x \<Rightarrow> Some x)"
  by (induction xs) simp_all

lemma UpdateTrackingList_for_find:
  "UpdateTrackingList_for m hd' u =
     (case List.find (\<lambda>h. HostData.CheckURL h = u) (rev hd') of None \<Rightarrow> m u | Some h \<Rightarrow> Some h)"
proof (induction hd' arbitrary: m)
  case Nil
  show ?case by simp
next
  case (Cons host hd')
  show ?case
    by (simp add: Cons.IH find_app split: option.splits)
qed

lemma UpdateTrackingList_currentHostList:
  "currentHostList (fst (UpdateTrackingList hc hd')) =
     (\<lambda>u. List.find (\<lambda>h. HostData.CheckURL h = u) (rev hd'))"
proof
  fix u
  have "currentHostList (fst (UpdateTrackingList hc hd')) u = UpdateTrackingList_for Map.empty hd' u"
    by (simp add: UpdateTrackingList_def Let_def split: option.splits)
  then show "currentHostList (fst (UpdateTrackingList hc hd')) u
      = List.find (\<lambda>h. HostData.CheckURL h = u) (rev hd')"
    by (simp add: UpdateTrackingList_for_find split: option.splits)
qed

lemma find_last_wins:
  assumes "HostData.CheckURL (h :: HostData) \<notin> HostData.CheckURL ` set ys"
  shows "List.find (\<lambda>x. HostData.CheckURL x = HostData.CheckURL h) (rev (xs @ h # ys)) = Some h"
proof -
  have "\<And>x. x \<in> set ys \<Longrightarrow> HostData.CheckURL x \<noteq> HostData.CheckURL h"
  proof
    fix x assume "x \<in> set ys" and "HostData.CheckURL x = HostData.CheckURL h"
    then have "HostData.CheckURL h \<in> HostData.CheckURL ` set ys"
      by (metis imageI)
    with assms show False by simp
  qed
  then have "List.find (\<lambda>x. HostData.CheckURL x = HostData.CheckURL h) (rev ys) = None"
    by (simp add: find_None_iff)
  then show ?thesis by (simp add: find_app)
qed

text \<open>
  C6. After \<open>UpdateTrackingList\<close> the current host list maps a URL to the last descriptor
  of the input with that check URL, and to nothing when the input has none: it does
  not depend on the list held before, and of two descriptors with the same URL the
  later one is kept. A checker that is set is handed the same new list by
  \<open>ResetList\<close>; a nil checker stays nil.
\<close>

theorem UpdateTrackingList_replaces:
  "currentHostList (fst (UpdateTrackingList hc hd')) =
     (\<lambda>u. List.find (\<lambda>h. HostData.CheckURL h = u) (rev hd'))
   \<and> (\<forall>u. u \<notin> HostData.CheckURL ` set hd' \<longrightarrow> currentHostList (fst (UpdateTrackingList hc hd')) u = None)
   \<and> (\<forall>xs h ys. hd' = xs @ h # ys \<and> HostData.CheckURL h \<notin> HostData.CheckURL ` set ys \<longrightarrow>
         currentHostList (fst (UpdateTrackingList hc hd')) (HostData.CheckURL h) = Some h)
   \<and> checker (fst (UpdateTrackingList hc hd')) =
       map_option (\<lambda>c. ResetList c (currentHostList (fst (UpdateTrackingList hc hd')))) (checker hc)
   \<and> (\<forall>c. checker hc = Some c \<longrightarrow>
         map_option HostList (checker (fst (UpdateTrackingList hc hd')))
           = Some (currentHostList (fst (UpdateTrackingList hc hd'))))"
proof (intro conjI allI impI)
  show "currentHostList (fst (UpdateTrackingList hc hd')) =
     (\<lambda>u. List.find (\<lambda>h. HostData.CheckURL h = u) (rev hd'))"
    by (rule UpdateTrackingList_currentHostList)
next
  fix u assume "u \<notin> HostData.CheckURL ` set hd'"
  then have "List.find (\<lambda>h. HostData.CheckURL h = u) (rev hd') = None"
    by (auto simp: find_None_iff)
  then show "currentHostList (fst (UpdateTrackingList hc hd')) u = None"
    by (simp add: UpdateTrackingList_currentHostList)
next
  fix xs h ys
  assume "hd' = xs @ h # ys \<and> HostData.CheckURL h \<notin> HostData.CheckURL ` set ys"
  then show "currentHostList (fst (UpdateTrackingList hc hd')) (HostData.CheckURL h) = Some h"
    using find_last_wins [of h ys xs] by (simp add: UpdateTrackingList_currentHostList)
next
  show "checker (fst (UpdateTrackingList hc hd')) =
       map_option (\<lambda>c. ResetList c (currentHostList (fst (UpdateTrackingList hc hd')))) (checker hc)"
    by (cases "checker hc") (simp_all add: UpdateTrackingList_def Let_def)
next
  fix c assume "checker hc = Some c"
  then show "map_option HostList (checker (fst (UpdateTrackingList hc hd')))
           = Some (currentHostList (fst (UpdateTrackingList hc hd')))"
    by (simp add: UpdateTrackingList_def Let_def ResetList_def)
qed

theorem UpdateTrackingList_replaces_witness:
  "currentHostList
     (fst (UpdateTrackingList
        (zero_HostCheckerManager
           \<lparr>checker := Some \<lparr>HostList = Map.empty\<rparr>,
            currentHostList := [''http://old.example.com/'' \<mapsto> example_host ''http://old.example.com/'' ''0'']\<rparr>)
        [example_host ''http://a.example.com/'' ''1'', example_host ''http://b.example.com/'' ''2'',
         example_host ''http://a.example.com/'' ''3'']))
     ''http://a.example.com/'' = Some (example_host ''http://a.example.com/'' ''3'')
   \<and> currentHostList
     (fst (UpdateTrackingList
        (zero_HostCheckerManager
           \<lparr>checker := Some \<lparr>HostList = Map.empty\<rparr>,
            currentHostList := [''http://old.example.com/'' \<mapsto> example_host ''http://old.example.com/'' ''0'']\<rparr>)
        [example_host ''http://a.example.com/'' ''1'', example_host ''http://b.example.com/'' ''2'',
         example_host ''http://a.example.com/'' ''3'']))
     ''http://old.example.com/'' = None
   \<and> map_option HostList (checker
     (fst (UpdateTrackingList
        (zero_HostCheckerManager
           \<lparr>checker := Some \<lparr>HostList = Map.empty\<rparr>,
            currentHostList := [''http://old.example.com/'' \<mapsto> example_host ''http://old.example.com/'' ''0'']\<rparr>)
        [example_host ''http://a.example.com/'' ''1'', example_host ''http://b.example.com/'' ''2'',
         example_host ''http://a.example.com/'' ''3''])))
     = Some (currentHostList
     (fst (UpdateTrackingList
        (zero_HostCheckerManager
           \<lparr>checker := Some \<lparr>HostList = Map.empty\<rparr>,
            currentHostList := [''http://old.example.com/'' \<mapsto> example_host ''http://old.example.com/'' ''0'']\<rparr>)
        [example_host ''http://a.example.com/'' ''1'', example_host ''http://b.example.com/'' ''2'',
         example_host ''http://a.example.com/'' ''3''])))"
proof -
  let ?hc = "zero_HostCheckerManager
           \<lparr>checker := Some \<lparr>HostList = Map.empty\<rparr>,
            currentHostList := [''http://old.example.com/'' \<mapsto> example_host ''http://old.example.com/'' ''0'']\<rparr>"
  let ?a1 = "example_host ''http://a.example.com/'' ''1''"
  let ?b2 = "example_host ''http://b.example.com/'' ''2''"
  let ?a3 = "example_host ''http://a.example.com/'' ''3''"
  note T = UpdateTrackingList_replaces [of ?hc "[?a1, ?b2, ?a3]"]
  have url: "HostData.CheckURL ?a3 = ''http://a.example.com/''"
    by (simp add: example_host_def)
  have "[?a1, ?b2, ?a3] = [?a1, ?b2] @ ?a3 # [] \<and> HostData.CheckURL ?a3 \<notin> HostData.CheckURL ` set []"
    by simp
  with T have "currentHostList (fst (UpdateTrackingList ?hc [?a1, ?b2, ?a3])) (HostData.CheckURL ?a3) = Some ?a3"
    by blast
  then have A: "currentHostList (fst (UpdateTrackingList ?hc [?a1, ?b2, ?a3])) ''http://a.example.com/'' = Some ?a3"
    by (simp only: url)
  have "''http://old.example.com/'' \<notin> HostData.CheckURL ` set [?a1, ?b2, ?a3]"
    by (simp add: example_host_def)
  with T have B: "currentHostList (fst (UpdateTrackingList ?hc [?a1, ?b2, ?a3])) ''http://old.example.com/'' = None"
    by blast
  have "checker ?hc = Some \<lparr>HostList = Map.empty\<rparr>"
    by simp
  with T have C: "map_option HostList (checker (fst (UpdateTrackingList ?hc [?a1, ?b2, ?a3])))
      = Some (currentHostList (fst (UpdateTrackingList ?hc [?a1, ?b2, ?a3])))"
    by blast
  from A B C show ?thesis by blast
qed

subsection \<open>OnHostDown, OnHostBackUp, IsHostDown\<close>

lemma getHostKey_eq:
  "getHostKey report = ''PollerCheckerInstance:'' @ map_index (MetaData report) ''host_name''"
  by (simp add: getHostKey_def PoolerHostSentinelKeyPrefix_def UnHealthyHostMetaDataHostKey_def)

text \<open>
  C5. On a manager with a store, \<open>OnHostDown\<close> returns, and the store it leaves is the
  old one with the value 1 written under the report's host key, the prefix followed by
  the host name of the report's metadata, with the configured \<open>TimeWait\<close> as TTL. This
  is so whether or not the register knows the report's API. When it does not, no
  event is fired; when it does, the host-down event is fired with the report.
\<close>

theorem OnHostDown_sets_marker:
  assumes "store hc = Some s"
  shows "\<exists>es. OnHostDown config ApiSpecRegister hc report =
             Inr (hc\<lparr>store := Some (SetKey s (getHostKey report) ''1'' (TimeWait config))\<rparr>, es)
          \<and> (ApiSpecRegister (map_index (MetaData report) UnHealthyHostMetaDataAPIKey) = None
               \<longrightarrow> filter is_FireEvent es = [])
          \<and> (\<forall>thisSpec. ApiSpecRegister (map_index (MetaData report) UnHealthyHostMetaDataAPIKey) = Some thisSpec
               \<longrightarrow> filter is_FireEvent es =
                     [Go_FireEvent thisSpec EVENT_HOSTDOWN \<lparr>Message = ''Uptime test failed'', HostInfo = report\<rparr>])
          \<and> keys (SetKey s (getHostKey report) ''1'' (TimeWait config)) (getHostKey report)
               = Some (''1'', TimeWait config)
          \<and> getHostKey report = ''PollerCheckerInstance:'' @ map_index (MetaData report) ''host_name''"
proof (cases "ApiSpecRegister (map_index (MetaData report) UnHealthyHostMetaDataAPIKey)")
  case None
  with assms show ?thesis
    by (simp add: OnHostDown_def Let_def is_FireEvent_def SetKey_def getHostKey_eq)
next
  case (Some thisSpec)
  with assms show ?thesis
    by (simp add: OnHostDown_def Let_def is_FireEvent_def SetKey_def getHostKey_eq)
qed

theorem OnHostDown_sets_marker_witness:
  "OnHostDown example_config Map.empty
      (Init ''A'' zero_HostCheckerManager (Some empty_store)) (example_report 500)
     = Inr (Init ''A'' zero_HostCheckerManager
              (Some (SetKey empty_store ''PollerCheckerInstance:api.example.com'' ''1'' 10)),
            [Log Debug [''Update key: '', ''PollerCheckerInstance:api.example.com''],
             Log Warning [''[HOST CHECKER MANAGER] Event can't fire for API that doesn't exist'']])
   \<and> (\<exists>es. OnHostDown example_config [''t1'' \<mapsto> example_spec ''t1'' ''org1'' []]
            (Init ''A'' zero_HostCheckerManager (Some empty_store)) (example_report 500)
          = Inr (Init ''A'' zero_HostCheckerManager
              (Some (SetKey empty_store ''PollerCheckerInstance:api.example.com'' ''1'' 10)), es)
        \<and> filter is_FireEvent es =
            [Go_FireEvent (example_spec ''t1'' ''org1'' []) EVENT_HOSTDOWN
               \<lparr>Message = ''Uptime test failed'', HostInfo = example_report 500\<rparr>])"
proof -
  let ?hc = "Init ''A'' zero_HostCheckerManager (Some empty_store)"
  let ?r = "example_report 500"
  let ?reg = "[''t1'' \<mapsto> example_spec ''t1'' ''org1'' []]"
  have st: "store ?hc = Some empty_store"
    by (simp add: Init_def GenerateCheckerId_def)
  have key: "getHostKey ?r = ''PollerCheckerInstance:api.example.com''"
    by (simp add: getHostKey_eq example_report_def map_index_def)
  have tw: "TimeWait example_config = 10"
    by (simp add: example_config_def)
  have upd: "?hc\<lparr>store := Some (SetKey empty_store ''PollerCheckerInstance:api.example.com'' ''1'' 10)\<rparr>
      = Init ''A'' zero_HostCheckerManager
              (Some (SetKey empty_store ''PollerCheckerInstance:api.example.com'' ''1'' 10))"
    by (simp add: Init_def GenerateCheckerId_def)
  have api: "map_index (MetaData ?r) UnHealthyHostMetaDataAPIKey = ''t1''"
    by (simp add: example_report_def map_index_def UnHealthyHostMetaDataAPIKey_def)
  from OnHostDown_sets_marker [OF st, of example_config Map.empty ?r]
  obtain es where es: "OnHostDown example_config Map.empty ?hc ?r =
      Inr (Init ''A'' zero_HostCheckerManager
              (Some (SetKey empty_store ''PollerCheckerInstance:api.example.com'' ''1'' 10)), es)"
      "filter is_FireEvent es = []"
    by (auto simp: key tw upd)
  have A: "OnHostDown example_config Map.empty ?hc ?r
     = Inr (Init ''A'' zero_HostCheckerManager
              (Some (SetKey empty_store ''PollerCheckerInstance:api.example.com'' ''1'' 10)),
            [Log Debug [''Update key: '', ''PollerCheckerInstance:api.example.com''],
             Log Warning [''[HOST CHECKER MANAGER] Event can't fire for API that doesn't exist'']])"
    using es(1) by (simp add: OnHostDown_def Let_def st key)
  from OnHostDown_sets_marker [OF st, of example_config ?reg ?r]
  have B: "\<exists>es. OnHostDown example_config ?reg ?hc ?r
          = Inr (Init ''A'' zero_HostCheckerManager
              (Some (SetKey empty_store ''PollerCheckerInstance:api.example.com'' ''1'' 10)), es)
        \<and> filter is_FireEvent es =
            [Go_FireEvent (example_spec ''t1'' ''org1'' []) EVENT_HOSTDOWN
               \<lparr>Message = ''Uptime test failed'', HostInfo = ?r\<rparr>]"
    by (auto simp: key tw upd api)
  from A B show ?thesis by blast
qed

lemma IsHostDown_iff_absent:
  assumes "store hc = Some s" and "url_Parse thisUrl = Inr u"
  shows "map_sum id fst (IsHostDown url_Parse hc thisUrl)
           = Inr (keys s (PoolerHostSentinelKeyPrefix @ Host u) = None)"
  using assms by (simp add: IsHostDown_def GetKey_def split: option.splits)

lemma IsHostDown_parse_error:
  "url_Parse thisUrl = Inl err \<Longrightarrow> IsHostDown url_Parse hc thisUrl = Inl NilDereference"
  by (simp add: IsHostDown_def)

text \<open>
  C1, as the code runs it. The manager \<open>A\<close> starts with an empty store. After
  \<open>OnHostDown\<close> for a report about \<open>api.example.com\<close> the marker is in the store and
  \<open>IsHostDown\<close> of a URL of that host returns false; after \<open>OnHostBackUp\<close> for the same
  report the marker is gone and \<open>IsHostDown\<close> returns true, as it does before any
  report. The function returns true when the read of the marker fails, that is when
  the marker is absent.
\<close>

theorem IsHostDown_after_OnHostDown:
  "map_sum id fst (OnHostDown example_config Map.empty
      (Init ''A'' zero_HostCheckerManager (Some empty_store)) (example_report 500))
     = Inr (Init ''A'' zero_HostCheckerManager
              (Some (SetKey empty_store ''PollerCheckerInstance:api.example.com'' ''1'' 10)))
   \<and> map_sum id fst (IsHostDown example_url_Parse
        (Init ''A'' zero_HostCheckerManager
              (Some (SetKey empty_store ''PollerCheckerInstance:api.example.com'' ''1'' 10)))
        ''http://api.example.com/path'') = Inr False
   \<and> map_sum id fst (OnHostBackUp Map.empty
        (Init ''A'' zero_HostCheckerManager
              (Some (SetKey empty_store ''PollerCheckerInstance:api.example.com'' ''1'' 10)))
        (example_report 200))
     = Inr (Init ''A'' zero_HostCheckerManager
              (Some (DeleteKey (SetKey empty_store ''PollerCheckerInstance:api.example.com'' ''1'' 10)
                 ''PollerCheckerInstance:api.example.com'')))
   \<and> map_sum id fst (IsHostDown example_url_Parse
        (Init ''A'' zero_HostCheckerManager
              (Some (DeleteKey (SetKey empty_store ''PollerCheckerInstance:api.example.com'' ''1'' 10)
                 ''PollerCheckerInstance:api.example.com'')))
        ''http://api.example.com/path'') = Inr True
   \<and> map_sum id fst (IsHostDown example_url_Parse
        (Init ''A'' zero_HostCheckerManager (Some empty_store))
        ''http://api.example.com/path'') = Inr True"
proof -
  let ?r = "example_report 500"
  have key: "getHostKey (example_report c) = ''PollerCheckerInstance:api.example.com''" for c
    by (simp add: getHostKey_def example_report_def map_index_def PoolerHostSentinelKeyPrefix_def
        UnHealthyHostMetaDataHostKey_def)
  have api: "map_index (MetaData (example_report c)) UnHealthyHostMetaDataAPIKey = ''t1''" for c
    by (simp add: example_report_def map_index_def UnHealthyHostMetaDataAPIKey_def)
  have parse: "example_url_Parse ''http://api.example.com/path'' = Inr \<lparr>Host = ''api.example.com''\<rparr>"
    by (simp add: example_url_Parse_def)
  have A: "map_sum id fst (OnHostDown example_config Map.empty
      (Init ''A'' zero_HostCheckerManager (Some empty_store)) (example_report 500))
     = Inr (Init ''A'' zero_HostCheckerManager
              (Some (SetKey empty_store ''PollerCheckerInstance:api.example.com'' ''1'' 10)))"
    by (simp add: OnHostDown_def Let_def key api Init_def GenerateCheckerId_def example_config_def)
  have B: "map_sum id fst (IsHostDown example_url_Parse
        (Init ''A'' zero_HostCheckerManager
              (Some (SetKey empty_store ''PollerCheckerInstance:api.example.com'' ''1'' 10)))
        ''http://api.example.com/path'') = Inr False"
    by (simp add: IsHostDown_def parse Init_def GenerateCheckerId_def GetKey_def SetKey_def
        PoolerHostSentinelKeyPrefix_def)
  have C: "map_sum id fst (OnHostBackUp Map.empty
        (Init ''A'' zero_HostCheckerManager
              (Some (SetKey empty_store ''PollerCheckerInstance:api.example.com'' ''1'' 10)))
        (example_report 200))
     = Inr (Init ''A'' zero_HostCheckerManager
              (Some (DeleteKey (SetKey empty_store ''PollerCheckerInstance:api.example.com'' ''1'' 10)
                 ''PollerCheckerInstance:api.example.com'')))"
    by (simp add: OnHostBackUp_def Let_def key api Init_def GenerateCheckerId_def)
  have D: "map_sum id fst (IsHostDown example_url_Parse
        (Init ''A'' zero_HostCheckerManager
              (Some (DeleteKey (SetKey empty_store ''PollerCheckerInstance:api.example.com'' ''1'' 10)
                 ''PollerCheckerInstance:api.example.com'')))
        ''http://api.example.com/path'') = Inr True"
    by (simp add: IsHostDown_def parse Init_def GenerateCheckerId_def GetKey_def SetKey_def DeleteKey_def
        PoolerHostSentinelKeyPrefix_def)
  have E: "map_sum id fst (IsHostDown example_url_Parse
        (Init ''A'' zero_HostCheckerManager (Some empty_store))
        ''http://api.example.com/path'') = Inr True"
    by (simp add: IsHostDown_def parse Init_def GenerateCheckerId_def GetKey_def empty_store_def)
  from A B C D E show ?thesis by blast
qed

subsection \<open>RecordUptimeAnalytics\<close>

lemma ServerError_newAnalyticsRecord:
  "ServerError (newAnalyticsRecord env ApiSpecRegister thisReport)
     = (200 < sint (HostHealthReport.ResponseCode thisReport))"
  by (simp add: newAnalyticsRecord_def Let_def)

lemma ServerError_SetExpiry: "ServerError (SetExpiry now u e) = ServerError u"
  by (simp add: SetExpiry_def Let_def)

lemma OrgID_SetExpiry: "UptimeReportData.OrgID (SetExpiry now u e) = UptimeReportData.OrgID u"
  by (simp add: SetExpiry_def Let_def)

lemma RecordUptimeAnalytics_record_Inr:
  assumes "RecordUptimeAnalytics_record env ApiSpecRegister thisReport = Inr newRecord"
  shows "\<exists>thisSpec.
           ApiSpecRegister (map_index (MetaData thisReport) UnHealthyHostMetaDataAPIKey) = Some thisSpec
           \<and> newRecord = SetExpiry (time_Now_SetExpiry env)
                 (newAnalyticsRecord env ApiSpecRegister thisReport)
                 (UptimeTests_Config_ExpireUptimeAnalyticsAfter thisSpec)"
  using assms by (auto simp: RecordUptimeAnalytics_record_def Let_def split: option.splits)

lemma RecordUptimeAnalytics_stored:
  assumes "store hc = Some s"
    and "RecordUptimeAnalytics env ApiSpecRegister hc thisReport = Inr (None, hc1, es)"
  shows "\<exists>newRecord encoded.
           RecordUptimeAnalytics_record env ApiSpecRegister thisReport = Inr newRecord
           \<and> msgpack_Marshal env newRecord = Inr encoded
           \<and> hc1 = hc\<lparr>store := Some (AppendToSet s UptimeAnalytics_KEYNAME encoded)\<rparr>"
  using assms by (auto simp: RecordUptimeAnalytics_def split: sum.splits)

text \<open>
  C7. The record that \<open>RecordUptimeAnalytics\<close> builds for a report has \<open>ServerError\<close> set
  exactly when the report's response code, a signed integer, is greater than 200; so
  has the record after \<open>SetExpiry\<close>, and so has the record whose encoding the call
  appends to the analytics set when it returns without error.
\<close>

theorem ServerError_iff_above_200:
  "ServerError (newAnalyticsRecord env ApiSpecRegister thisReport)
     = (200 < sint (HostHealthReport.ResponseCode thisReport))
   \<and> (\<forall>newRecord. RecordUptimeAnalytics_record env ApiSpecRegister thisReport = Inr newRecord \<longrightarrow>
         ServerError newRecord = (200 < sint (HostHealthReport.ResponseCode thisReport)))
   \<and> (\<forall>s hc1 es. store hc = Some s
           \<and> RecordUptimeAnalytics env ApiSpecRegister hc thisReport = Inr (None, hc1, es) \<longrightarrow>
         (\<exists>newRecord encoded.
            msgpack_Marshal env newRecord = Inr encoded
            \<and> store hc1 = Some (AppendToSet s UptimeAnalytics_KEYNAME encoded)
            \<and> ServerError newRecord = (200 < sint (HostHealthReport.ResponseCode thisReport))))"
proof (intro conjI allI impI)
  show "ServerError (newAnalyticsRecord env ApiSpecRegister thisReport)
     = (200 < sint (HostHealthReport.ResponseCode thisReport))"
    by (rule ServerError_newAnalyticsRecord)
next
  fix newRecord
  assume "RecordUptimeAnalytics_record env ApiSpecRegister thisReport = Inr newRecord"
  from RecordUptimeAnalytics_record_Inr [OF this]
  show "ServerError newRecord = (200 < sint (HostHealthReport.ResponseCode thisReport))"
    by (auto simp: ServerError_SetExpiry ServerError_newAnalyticsRecord)
next
  fix s hc1 es
  assume a: "store hc = Some s
           \<and> RecordUptimeAnalytics env ApiSpecRegister hc thisReport = Inr (None, hc1, es)"
  from RecordUptimeAnalytics_stored [of hc s env ApiSpecRegister thisReport hc1 es] a
  obtain newRecord encoded where
    r: "RecordUptimeAnalytics_record env ApiSpecRegister thisReport = Inr newRecord"
    and m: "msgpack_Marshal env newRecord = Inr encoded"
    and h: "hc1 = hc\<lparr>store := Some (AppendToSet s UptimeAnalytics_KEYNAME encoded)\<rparr>"
    by blast
  from RecordUptimeAnalytics_record_Inr [OF r]
  have "ServerError newRecord = (200 < sint (HostHealthReport.ResponseCode thisReport))"
    by (auto simp: ServerError_SetExpiry ServerError_newAnalyticsRecord)
  with m h show "\<exists>newRecord encoded.
            msgpack_Marshal env newRecord = Inr encoded
            \<and> store hc1 = Some (AppendToSet s UptimeAnalytics_KEYNAME encoded)
            \<and> ServerError newRecord = (200 < sint (HostHealthReport.ResponseCode thisReport))"
    by auto
qed

theorem ServerError_iff_above_200_witness:
  "ServerError (newAnalyticsRecord example_env [''t1'' \<mapsto> example_spec ''t1'' ''org1'' []] (example_report 201))
   \<and> \<not> ServerError (newAnalyticsRecord example_env [''t1'' \<mapsto> example_spec ''t1'' ''org1'' []] (example_report 200))
   \<and> \<not> ServerError (newAnalyticsRecord example_env [''t1'' \<mapsto> example_spec ''t1'' ''org1'' []] (example_report (- 1)))
   \<and> (\<exists>newRecord.
         RecordUptimeAnalytics_record example_env [''t1'' \<mapsto> example_spec ''t1'' ''org1'' []] (example_report 500)
           = Inr newRecord
         \<and> ServerError newRecord)
   \<and> (\<exists>newRecord encoded.
         RecordUptimeAnalytics example_env [''t1'' \<mapsto> example_spec ''t1'' ''org1'' []]
            (Init ''A'' zero_HostCheckerManager (Some empty_store)) (example_report 500)
           = Inr (None,
                  Init ''A'' zero_HostCheckerManager
                    (Some (AppendToSet empty_store UptimeAnalytics_KEYNAME encoded)),
                  [])
         \<and> msgpack_Marshal example_env newRecord = Inr encoded
         \<and> ServerError newRecord)"
proof -
  let ?reg = "[''t1'' \<mapsto> example_spec ''t1'' ''org1'' []]"
  let ?hc = "Init ''A'' zero_HostCheckerManager (Some empty_store)"
  have st: "store ?hc = Some empty_store"
    by (simp add: Init_def GenerateCheckerId_def)
  have api: "map_index (MetaData (example_report c)) UnHealthyHostMetaDataAPIKey = ''t1''" for c
    by (simp add: example_report_def map_index_def UnHealthyHostMetaDataAPIKey_def)
  have code: "HostHealthReport.ResponseCode (example_report c) = c" for c
    by (simp add: example_report_def)
  have A: "ServerError (newAnalyticsRecord example_env ?reg (example_report 201))"
    using ServerError_iff_above_200 [of example_env ?reg "example_report 201" ?hc]
    by (simp add: code)
  have B: "\<not> ServerError (newAnalyticsRecord example_env ?reg (example_report 200))"
    using ServerError_iff_above_200 [of example_env ?reg "example_report 200" ?hc]
    by (simp add: code)
  have B': "\<not> ServerError (newAnalyticsRecord example_env ?reg (example_report (- 1)))"
    using ServerError_iff_above_200 [of example_env ?reg "example_report (- 1)" ?hc]
    by (simp add: code)
  note T = ServerError_iff_above_200 [of example_env ?reg "example_report 500" ?hc]
  let ?rec = "SetExpiry (time_Now_SetExpiry example_env)
                (newAnalyticsRecord example_env ?reg (example_report 500))
                (UptimeTests_Config_ExpireUptimeAnalyticsAfter (example_spec ''t1'' ''org1'' []))"
  have r: "RecordUptimeAnalytics_record example_env ?reg (example_report 500) = Inr ?rec"
    by (simp add: RecordUptimeAnalytics_record_def Let_def api)
  with T have sr: "ServerError ?rec = (200 < sint (HostHealthReport.ResponseCode (example_report 500)))"
    by blast
  then have sr': "ServerError ?rec"
    by (simp add: code)
  have C: "\<exists>newRecord. RecordUptimeAnalytics_record example_env ?reg (example_report 500) = Inr newRecord
         \<and> ServerError newRecord"
    using r sr' by blast
  have m: "msgpack_Marshal example_env ?rec = Inr ''http://api.example.com/health''"
    by (simp add: example_env_def SetExpiry_def Let_def newAnalyticsRecord_def example_report_def)
  have run: "RecordUptimeAnalytics example_env ?reg ?hc (example_report 500)
      = Inr (None, ?hc\<lparr>store := Some (AppendToSet empty_store UptimeAnalytics_KEYNAME ''http://api.example.com/health'')\<rparr>, [])"
    by (simp add: RecordUptimeAnalytics_def r m st)
  with T st obtain newRecord encoded where
    e: "msgpack_Marshal example_env newRecord = Inr encoded"
      "store (?hc\<lparr>store := Some (AppendToSet empty_store UptimeAnalytics_KEYNAME ''http://api.example.com/health'')\<rparr>)
         = Some (AppendToSet empty_store UptimeAnalytics_KEYNAME encoded)"
      "ServerError newRecord = (200 < sint (HostHealthReport.ResponseCode (example_report 500)))"
    by blast
  have upd: "?hc\<lparr>store := Some x\<rparr> = Init ''A'' zero_HostCheckerManager (Some x)" for x
    by (simp add: Init_def GenerateCheckerId_def)
  from e(2) have "AppendToSet empty_store UptimeAnalytics_KEYNAME ''http://api.example.com/health''
      = AppendToSet empty_store UptimeAnalytics_KEYNAME encoded"
    by simp
  with run have run': "RecordUptimeAnalytics example_env ?reg ?hc (example_report 500)
      = Inr (None, Init ''A'' zero_HostCheckerManager (Some (AppendToSet empty_store UptimeAnalytics_KEYNAME encoded)), [])"
    by (simp add: upd)
  from e(3) have "ServerError newRecord" by (simp add: code)
  with run' e(1) have D: "\<exists>newRecord encoded.
         RecordUptimeAnalytics example_env ?reg ?hc (example_report 500)
           = Inr (None, Init ''A'' zero_HostCheckerManager
                    (Some (AppendToSet empty_store UptimeAnalytics_KEYNAME encoded)), [])
         \<and> msgpack_Marshal example_env newRecord = Inr encoded
         \<and> ServerError newRecord"
    by blast
  from A B B' C D show ?thesis by blast
qed

lemma OrgID_newAnalyticsRecord:
  "UptimeReportData.OrgID (newAnalyticsRecord env ApiSpecRegister thisReport) =
     (case ApiSpecRegister (map_index (MetaData thisReport) UnHealthyHostMetaDataAPIKey) of
        None \<Rightarrow> []
      | Some thisSpec \<Rightarrow> APISpec.OrgID thisSpec)"
  by (simp add: newAnalyticsRecord_def Let_def)

lemma RecordUptimeAnalytics_miss:
  assumes "ApiSpecRegister (map_index (MetaData thisReport) UnHealthyHostMetaDataAPIKey) = None"
  shows "RecordUptimeAnalytics env ApiSpecRegister hc thisReport = Inl NilDereference"
  using assms by (simp add: RecordUptimeAnalytics_def RecordUptimeAnalytics_record_def Let_def)

text \<open>
  C8, as the code runs it. For a report whose API is not in the register the record
  that the struct literal builds has an empty \<open>OrgID\<close>, but the call does not get as far
  as encoding it: the expiry is read through \<open>thisSpec\<close>, which is nil after the failed
  lookup. With the API registered the call returns and the record carries the
  organisation of the API.
\<close>

theorem RecordUptimeAnalytics_unregistered:
  "UptimeReportData.OrgID (newAnalyticsRecord example_env Map.empty (example_report 200)) = []
   \<and> RecordUptimeAnalytics_record example_env Map.empty (example_report 200) = Inl NilDereference
   \<and> RecordUptimeAnalytics example_env Map.empty
        (Init ''A'' zero_HostCheckerManager (Some empty_store)) (example_report 200)
       = Inl NilDereference
   \<and> RecordUptimeAnalytics example_env [''t1'' \<mapsto> example_spec ''t1'' ''org1'' []]
        (Init ''A'' zero_HostCheckerManager (Some empty_store)) (example_report 200)
       = Inr (None,
              Init ''A'' zero_HostCheckerManager
                (Some (AppendToSet empty_store UptimeAnalytics_KEYNAME ''http://api.example.com/health'')),
              [])
   \<and> UptimeReportData.OrgID
        (newAnalyticsRecord example_env [''t1'' \<mapsto> example_spec ''t1'' ''org1'' []] (example_report 200))
       = ''org1''"
proof -
  have api: "map_index (MetaData (example_report c)) UnHealthyHostMetaDataAPIKey = ''t1''" for c
    by (simp add: example_report_def map_index_def UnHealthyHostMetaDataAPIKey_def)
  have A: "UptimeReportData.OrgID (newAnalyticsRecord example_env Map.empty (example_report 200)) = []"
    by (simp add: newAnalyticsRecord_def Let_def)
  have B: "RecordUptimeAnalytics_record example_env Map.empty (example_report 200) = Inl NilDereference"
    by (simp add: RecordUptimeAnalytics_record_def Let_def)
  have C: "RecordUptimeAnalytics example_env Map.empty
        (Init ''A'' zero_HostCheckerManager (Some empty_store)) (example_report 200)
       = Inl NilDereference"
    by (simp add: RecordUptimeAnalytics_def B)
  have D: "RecordUptimeAnalytics example_env [''t1'' \<mapsto> example_spec ''t1'' ''org1'' []]
        (Init ''A'' zero_HostCheckerManager (Some empty_store)) (example_report 200)
       = Inr (None,
              Init ''A'' zero_HostCheckerManager
                (Some (AppendToSet empty_store UptimeAnalytics_KEYNAME ''http://api.example.com/health'')),
              [])"
    by (simp add: RecordUptimeAnalytics_def RecordUptimeAnalytics_record_def Let_def api
        example_env_def SetExpiry_def newAnalyticsRecord_def Init_def GenerateCheckerId_def)
       (simp add: example_report_def)
  have E: "UptimeReportData.OrgID
        (newAnalyticsRecord example_env [''t1'' \<mapsto> example_spec ''t1'' ''org1'' []] (example_report 200))
       = ''org1''"
    by (simp add: newAnalyticsRecord_def Let_def api example_spec_def)
  from A B C D E show ?thesis by blast
qed

subsection \<open>SetCheckerHostList\<close>

lemma is_Log_Log: "is_Log l (Log l' args) = (l' = l)"
  by (simp add: is_Log_def)

lemma PrepareTrackingHost_error_logs:
  "length (filter (is_Log Error) (snd (PrepareTrackingHost url_Parse DecodeString checkItem a)))
     = (if prepared url_Parse DecodeString (checkItem, a) = None then 1 else 0)"
  by (simp add: PrepareTrackingHost_def prepared_def is_Log_Log Let_def split: sum.splits)

lemma prepared_None_iff:
  "prepared url_Parse DecodeString (checkItem, a) = None \<longleftrightarrow>
     isl (url_Parse (HostCheckObject.CheckURL checkItem))
     \<or> (HostCheckObject.Body checkItem \<noteq> [] \<and> isl (DecodeString (HostCheckObject.Body checkItem)))"
  by (auto simp: PrepareTrackingHost_def prepared_def Let_def isl_def split: sum.splits)

lemma checks_fst:
  "fst (SetCheckerHostList_checks url_Parse DecodeString a cs acc) =
     fst acc @ List.map_filter (prepared url_Parse DecodeString) (map (\<lambda>c. (c, a)) cs)"
proof (induction cs arbitrary: acc)
  case Nil
  show ?case by (simp add: List.map_filter_simps)
next
  case (Cons c cs)
  obtain hostList es where acc: "acc = (hostList, es)" by (cases acc)
  obtain res es1 where p: "PrepareTrackingHost url_Parse DecodeString c a = (res, es1)"
    by (cases "PrepareTrackingHost url_Parse DecodeString c a")
  show ?case
  proof (cases res)
    case (Inl err)
    with acc p Cons.IH show ?thesis
      by (simp add: List.map_filter_simps prepared_def)
  next
    case (Inr h)
    with acc p Cons.IH show ?thesis
      by (simp add: List.map_filter_simps prepared_def)
  qed
qed

lemma checks_errors:
  "length (filter (is_Log Error) (snd (SetCheckerHostList_checks url_Parse DecodeString a cs acc))) =
     length (filter (is_Log Error) (snd acc))
     + length (filter (\<lambda>ca. prepared url_Parse DecodeString ca = None) (map (\<lambda>c. (c, a)) cs))"
proof (induction cs arbitrary: acc)
  case Nil
  show ?case by simp
next
  case (Cons c cs)
  obtain hostList es where acc: "acc = (hostList, es)" by (cases acc)
  obtain res es1 where p: "PrepareTrackingHost url_Parse DecodeString c a = (res, es1)"
    by (cases "PrepareTrackingHost url_Parse DecodeString c a")
  from PrepareTrackingHost_error_logs [of url_Parse DecodeString c a] p
  have n: "length (filter (is_Log Error) es1)
      = (if prepared url_Parse DecodeString (c, a) = None then 1 else 0)"
    by simp
  show ?case
  proof (cases res)
    case (Inl err)
    with p have "prepared url_Parse DecodeString (c, a) = None"
      by (simp add: prepared_def)
    with Inl acc p n Cons.IH show ?thesis
      by (simp add: is_Log_Log)
  next
    case (Inr h)
    with p have "prepared url_Parse DecodeString (c, a) = Some h"
      by (simp add: prepared_def)
    with Inr acc p n Cons.IH show ?thesis
      by (simp add: is_Log_Log)
  qed
qed

lemma map_filter_app: "List.map_filter f (xs @ ys) = List.map_filter f xs @ List.map_filter f ys"
  by (simp add: List.map_filter_def)

lemma specs_fst:
  "fst (SetCheckerHostList_specs url_Parse DecodeString specs acc) =
     fst acc @ List.map_filter (prepared url_Parse DecodeString) (all_checks specs)"
proof (induction specs arbitrary: acc)
  case Nil
  show ?case by (simp add: all_checks_def List.map_filter_simps)
next
  case (Cons spec specs)
  have "all_checks (spec # specs) =
      map (\<lambda>c. (c, APISpec.APIID spec)) (UptimeTests_CheckList spec) @ all_checks specs"
    by (simp add: all_checks_def)
  then show ?case
    by (simp add: Cons.IH checks_fst map_filter_app)
qed

lemma specs_errors:
  "length (filter (is_Log Error) (snd (SetCheckerHostList_specs url_Parse DecodeString specs acc))) =
     length (filter (is_Log Error) (snd acc))
     + length (filter (\<lambda>ca. prepared url_Parse DecodeString ca = None) (all_checks specs))"
proof (induction specs arbitrary: acc)
  case Nil
  show ?case by (simp add: all_checks_def)
next
  case (Cons spec specs)
  have "all_checks (spec # specs) =
      map (\<lambda>c. (c, APISpec.APIID spec)) (UptimeTests_CheckList spec) @ all_checks specs"
    by (simp add: all_checks_def)
  then show ?case
    by (simp add: Cons.IH checks_errors)
qed

lemma length_map_filter:
  "length (List.map_filter f xs) + length (filter (\<lambda>x. f x = None) xs) = length xs"
  by (induction xs) (simp_all add: List.map_filter_simps split: option.splits)

lemma UpdateTrackingList_no_Error: "filter (is_Log Error) (snd (UpdateTrackingList hc hd')) = []"
  by (cases "checker hc") (simp_all add: UpdateTrackingList_def Let_def is_Log_Log)

lemma SetCheckerHostList_unfold:
  "SetCheckerHostList url_Parse DecodeString specs hc =
     (fst (UpdateTrackingList hc
        (fst (SetCheckerHostList_specs url_Parse DecodeString specs ([], [Log Info [''Loading uptime tests:'']])))),
      snd (SetCheckerHostList_specs url_Parse DecodeString specs ([], [Log Info [''Loading uptime tests:'']]))
        @ snd (UpdateTrackingList hc
            (fst (SetCheckerHostList_specs url_Parse DecodeString specs ([], [Log Info [''Loading uptime tests:'']])))))"
  by (simp add: SetCheckerHostList_def split: prod.splits)

text \<open>
  C4. \<open>SetCheckerHostList\<close> hands \<open>UpdateTrackingList\<close> the host data of exactly the
  configurations that \<open>PrepareTrackingHost\<close> accepts, in the order of the visit, and
  logs one error line for each configuration it rejects; a configuration is rejected
  exactly when its URL does not parse or its body is not empty and does not decode.
  The call always runs to the end: the current host list is the one built from the
  accepted configurations. In particular, of five configurations with one rejected,
  four descriptors are produced and one error is logged.
\<close>

theorem SetCheckerHostList_skips_failures:
  "fst (SetCheckerHostList_specs url_Parse DecodeString specs ([], [Log Info [''Loading uptime tests:'']]))
     = List.map_filter (prepared url_Parse DecodeString) (all_checks specs)
   \<and> length (filter (is_Log Error) (snd (SetCheckerHostList url_Parse DecodeString specs hc)))
     = length (filter (\<lambda>ca. prepared url_Parse DecodeString ca = None) (all_checks specs))
   \<and> length (List.map_filter (prepared url_Parse DecodeString) (all_checks specs))
       + length (filter (\<lambda>ca. prepared url_Parse DecodeString ca = None) (all_checks specs))
     = length (all_checks specs)
   \<and> (\<forall>checkItem a.
         (prepared url_Parse DecodeString (checkItem, a) = None) =
         (isl (url_Parse (HostCheckObject.CheckURL checkItem))
          \<or> (HostCheckObject.Body checkItem \<noteq> [] \<and> isl (DecodeString (HostCheckObject.Body checkItem)))))
   \<and> currentHostList (fst (SetCheckerHostList url_Parse DecodeString specs hc))
     = (\<lambda>u. List.find (\<lambda>h. HostData.CheckURL h = u)
              (rev (List.map_filter (prepared url_Parse DecodeString) (all_checks specs))))
   \<and> (length (all_checks specs) = 5
        \<and> length (filter (\<lambda>ca. prepared url_Parse DecodeString ca = None) (all_checks specs)) = 1 \<longrightarrow>
       length (fst (SetCheckerHostList_specs url_Parse DecodeString specs
                      ([], [Log Info [''Loading uptime tests:'']]))) = 4
       \<and> length (filter (is_Log Error) (snd (SetCheckerHostList url_Parse DecodeString specs hc))) = 1)"
proof -
  let ?init = "([] :: HostData list, [Log Info [''Loading uptime tests:'']])"
  let ?ok = "List.map_filter (prepared url_Parse DecodeString) (all_checks specs)"
  let ?bad = "filter (\<lambda>ca. prepared url_Parse DecodeString ca = None) (all_checks specs)"
  have A: "fst (SetCheckerHostList_specs url_Parse DecodeString specs ?init) = ?ok"
    by (simp add: specs_fst)
  have "length (filter (is_Log Error) (snd (SetCheckerHostList_specs url_Parse DecodeString specs ?init)))
      = length ?bad"
    by (simp add: specs_errors is_Log_Log)
  then have B: "length (filter (is_Log Error) (snd (SetCheckerHostList url_Parse DecodeString specs hc)))
      = length ?bad"
    by (simp add: SetCheckerHostList_unfold UpdateTrackingList_no_Error)
  have C: "length ?ok + length ?bad = length (all_checks specs)"
    by (rule length_map_filter)
  have D: "\<forall>checkItem a.
         (prepared url_Parse DecodeString (checkItem, a) = None) =
         (isl (url_Parse (HostCheckObject.CheckURL checkItem))
          \<or> (HostCheckObject.Body checkItem \<noteq> [] \<and> isl (DecodeString (HostCheckObject.Body checkItem))))"
    by (simp add: prepared_None_iff)
  have E: "currentHostList (fst (SetCheckerHostList url_Parse DecodeString specs hc))
     = (\<lambda>u. List.find (\<lambda>h. HostData.CheckURL h = u) (rev ?ok))"
    by (simp add: SetCheckerHostList_unfold UpdateTrackingList_currentHostList A)
  have F: "length (all_checks specs) = 5 \<and> length ?bad = 1 \<longrightarrow>
       length (fst (SetCheckerHostList_specs url_Parse DecodeString specs ?init)) = 4
       \<and> length (filter (is_Log Error) (snd (SetCheckerHostList url_Parse DecodeString specs hc))) = 1"
    using A B C by simp
  from A B C D E F show ?thesis by blast
qed

theorem SetCheckerHostList_skips_failures_witness:
  "length (all_checks
     [example_spec ''t1'' ''org1''
        [example_check ''http://api.example.com/path'' [],
         example_check ''http://api.example.com/health'' ''VEhJUw=='',
         example_check ''http://google.com:3000/'' ''not base64!''],
      example_spec ''t2'' ''org2''
        [example_check ''http://a.example.com/'' [],
         example_check ''http://b.example.com/'' ''VEhJUw=='']]) = 5
   \<and> length (fst (SetCheckerHostList_specs example_url_Parse example_DecodeString
     [example_spec ''t1'' ''org1''
        [example_check ''http://api.example.com/path'' [],
         example_check ''http://api.example.com/health'' ''VEhJUw=='',
         example_check ''http://google.com:3000/'' ''not base64!''],
      example_spec ''t2'' ''org2''
        [example_check ''http://a.example.com/'' [],
         example_check ''http://b.example.com/'' ''VEhJUw=='']]
     ([], [Log Info [''Loading uptime tests:'']]))) = 4
   \<and> length (filter (is_Log Error) (snd (SetCheckerHostList example_url_Parse example_DecodeString
     [example_spec ''t1'' ''org1''
        [example_check ''http://api.example.com/path'' [],
         example_check ''http://api.example.com/health'' ''VEhJUw=='',
         example_check ''http://google.com:3000/'' ''not base64!''],
      example_spec ''t2'' ''org2''
        [example_check ''http://a.example.com/'' [],
         example_check ''http://b.example.com/'' ''VEhJUw=='']]
     zero_HostCheckerManager))) = 1
   \<and> map_option HostData.Body (currentHostList (fst (SetCheckerHostList example_url_Parse example_DecodeString
     [example_spec ''t1'' ''org1''
        [example_check ''http://api.example.com/path'' [],
         example_check ''http://api.example.com/health'' ''VEhJUw=='',
         example_check ''http://google.com:3000/'' ''not base64!''],
      example_spec ''t2'' ''org2''
        [example_check ''http://a.example.com/'' [],
         example_check ''http://b.example.com/'' ''VEhJUw=='']]
     zero_HostCheckerManager)) ''http://b.example.com/'') = Some ''THIS''
   \<and> currentHostList (fst (SetCheckerHostList example_url_Parse example_DecodeString
     [example_spec ''t1'' ''org1''
        [example_check ''http://api.example.com/path'' [],
         example_check ''http://api.example.com/health'' ''VEhJUw=='',
         example_check ''http://google.com:3000/'' ''not base64!''],
      example_spec ''t2'' ''org2''
        [example_check ''http://a.example.com/'' [],
         example_check ''http://b.example.com/'' ''VEhJUw=='']]
     zero_HostCheckerManager)) ''http://google.com:3000/'' = None"
proof -
  let ?c1 = "example_check ''http://api.example.com/path'' []"
  let ?c2 = "example_check ''http://api.example.com/health'' ''VEhJUw==''"
  let ?c3 = "example_check ''http://google.com:3000/'' ''not base64!''"
  let ?c4 = "example_check ''http://a.example.com/'' []"
  let ?c5 = "example_check ''http://b.example.com/'' ''VEhJUw==''"
  let ?specs = "[example_spec ''t1'' ''org1'' [?c1, ?c2, ?c3], example_spec ''t2'' ''org2'' [?c4, ?c5]]"
  let ?P = example_url_Parse
  let ?D = example_DecodeString
  note T = SetCheckerHostList_skips_failures [of ?P ?D ?specs zero_HostCheckerManager]
  have all: "all_checks ?specs = [(?c1, ''t1''), (?c2, ''t1''), (?c3, ''t1''), (?c4, ''t2''), (?c5, ''t2'')]"
    by (simp add: all_checks_def example_spec_def)
  have p1: "prepared ?P ?D (?c1, ''t1'') \<noteq> None"
    using T by (simp add: example_check_def example_url_Parse_def)
  have p2: "prepared ?P ?D (?c2, ''t1'') \<noteq> None"
    using T by (simp add: example_check_def example_url_Parse_def example_DecodeString_def)
  have p3: "prepared ?P ?D (?c3, ''t1'') = None"
    using T by (simp add: example_check_def example_url_Parse_def example_DecodeString_def)
  have p4: "prepared ?P ?D (?c4, ''t2'') \<noteq> None"
    using T by (simp add: example_check_def example_url_Parse_def)
  have p5: "prepared ?P ?D (?c5, ''t2'') = Some
      \<lparr>CheckURL = ''http://b.example.com/'', ID = ''http://b.example.com/'',
       MetaData = [''target_url'' \<mapsto> ''http://b.example.com/'', ''api_id'' \<mapsto> ''t2'',
                   ''host_name'' \<mapsto> ''b.example.com''],
       Method = ''GET'', Headers = Map.empty, Body = ''THIS''\<rparr>"
    by (simp add: prepared_def PrepareTrackingHost_def Let_def example_check_def example_url_Parse_def
        example_DecodeString_def UnHealthyHostMetaDataTargetKey_def UnHealthyHostMetaDataAPIKey_def
        UnHealthyHostMetaDataHostKey_def)
  have five: "length (all_checks ?specs) = 5"
    by (simp add: all)
  have one: "length (filter (\<lambda>ca. prepared ?P ?D ca = None) (all_checks ?specs)) = 1"
    using p1 p2 p3 p4 p5 by (simp add: all)
  from T five one
  have A: "length (fst (SetCheckerHostList_specs ?P ?D ?specs ([], [Log Info [''Loading uptime tests:'']]))) = 4"
    and B: "length (filter (is_Log Error) (snd (SetCheckerHostList ?P ?D ?specs zero_HostCheckerManager))) = 1"
    by blast+
  from T have cur: "currentHostList (fst (SetCheckerHostList ?P ?D ?specs zero_HostCheckerManager))
     = (\<lambda>u. List.find (\<lambda>h. HostData.CheckURL h = u)
              (rev (List.map_filter (prepared ?P ?D) (all_checks ?specs))))"
    by blast
  obtain h1 h2 h4 where h: "prepared ?P ?D (?c1, ''t1'') = Some h1"
      "prepared ?P ?D (?c2, ''t1'') = Some h2" "prepared ?P ?D (?c4, ''t2'') = Some h4"
    using p1 p2 p4 by auto
  have u1: "HostData.CheckURL h1 = ''http://api.example.com/path''"
    using h(1) by (auto simp: prepared_def PrepareTrackingHost_def Let_def example_check_def
        example_url_Parse_def split: sum.splits if_splits)
  have u2: "HostData.CheckURL h2 = ''http://api.example.com/health''"
    using h(2) by (auto simp: prepared_def PrepareTrackingHost_def Let_def example_check_def
        example_url_Parse_def split: sum.splits if_splits)
  have u4: "HostData.CheckURL h4 = ''http://a.example.com/''"
    using h(3) by (auto simp: prepared_def PrepareTrackingHost_def Let_def example_check_def
        example_url_Parse_def split: sum.splits if_splits)
  have C: "map_option HostData.Body
      (currentHostList (fst (SetCheckerHostList ?P ?D ?specs zero_HostCheckerManager)) ''http://b.example.com/'')
      = Some ''THIS''"
    by (simp add: cur all List.map_filter_simps h p3 p5 u1 u2 u4)
  have D: "currentHostList (fst (SetCheckerHostList ?P ?D ?specs zero_HostCheckerManager)) ''http://google.com:3000/''
      = None"
    by (simp add: cur all List.map_filter_simps h p3 p5 u1 u2 u4)
  from five A B C D show ?thesis by blast
qed

end
